theory Spec2Isabelle
  imports Complex_Main
begin

section \<open>Python strings\<close>

text \<open>
  A Python \<open>str\<close> is modelled as a \<open>string\<close> whose characters are the code points
  0 to 255 (the Latin-1 range); text with code points above 255 is outside the model.
  The functions below are the \<open>str\<close> methods the program calls, restricted to that range.
\<close>

definition py_isspace :: "char \<Rightarrow> bool" where
  \<comment> \<open>\<open>str.isspace\<close> on one character: tab, LF, VT, FF, CR, FS, GS, RS, US, space, NEL, NBSP.\<close>
  "py_isspace c = (of_char c \<in> {9, 10, 11, 12, 13, 28, 29, 30, 31, 32, 133, 160 :: nat})"

definition strip :: "string \<Rightarrow> string" where
  \<comment> \<open>\<open>str.strip()\<close>: leading and trailing whitespace removed.\<close>
  "strip s = rev (dropWhile py_isspace (rev (dropWhile py_isspace s)))"

definition lower_char :: "char \<Rightarrow> char" where
  "lower_char c =
     (let n = (of_char c :: nat)
      in if (65 \<le> n \<and> n \<le> 90) \<or> (192 \<le> n \<and> n \<le> 222 \<and> n \<noteq> 215)
         then char_of (n + 32) else c)"

definition lower :: "string \<Rightarrow> string" where
  \<comment> \<open>\<open>str.lower()\<close>.\<close>
  "lower s = map lower_char s"

definition upper_char :: "char \<Rightarrow> char" where
  \<comment> \<open>The title-case form of a character, where it is one character of the range.\<close>
  "upper_char c =
     (let n = (of_char c :: nat)
      in if (97 \<le> n \<and> n \<le> 122) \<or> (224 \<le> n \<and> n \<le> 254 \<and> n \<noteq> 247)
         then char_of (n - 32) else c)"

definition capitalize :: "string \<Rightarrow> string" where
  \<comment> \<open>\<open>str.capitalize()\<close>: first character upper-cased, the rest lower-cased. The program
      calls it on the words success, failure and alternative only.\<close>
  "capitalize s = (case s of [] \<Rightarrow> [] | c # cs \<Rightarrow> upper_char c # lower cs)"

definition startswith :: "string \<Rightarrow> string \<Rightarrow> bool" where
  "startswith s p = (take (length p) s = p)"

definition endswith :: "string \<Rightarrow> string \<Rightarrow> bool" where
  "endswith s p = (length p \<le> length s \<and> drop (length s - length p) s = p)"

definition is_linebreak :: "char \<Rightarrow> bool" where
  \<comment> \<open>The line boundaries of \<open>str.splitlines\<close>: LF, VT, FF, CR, FS, GS, RS, NEL.\<close>
  "is_linebreak c = (of_char c \<in> {10, 11, 12, 13, 28, 29, 30, 133 :: nat})"

fun splitlines_from :: "string \<Rightarrow> string \<Rightarrow> string list" where
  "splitlines_from cur [] = (if cur = [] then [] else [rev cur])"
| "splitlines_from cur [c] = (if is_linebreak c then [rev cur] else [rev (c # cur)])"
| "splitlines_from cur (c # d # cs) =
     (if c = CHR 0x0D \<and> d = CHR 0x0A then rev cur # splitlines_from [] cs
      else if is_linebreak c then rev cur # splitlines_from [] (d # cs)
      else splitlines_from (c # cur) (d # cs))"

definition splitlines :: "string \<Rightarrow> string list" where
  \<comment> \<open>\<open>str.splitlines()\<close>: CR LF is one boundary; no empty last line.\<close>
  "splitlines s = splitlines_from [] s"

fun join :: "string \<Rightarrow> string list \<Rightarrow> string" where
  \<comment> \<open>\<open>sep.join(parts)\<close>.\<close>
  "join sep [] = []"
| "join sep [x] = x"
| "join sep (x # y # ys) = x @ sep @ join sep (y # ys)"

section \<open>Schemas (models/schemas.py)\<close>

datatype py_error =
    KeyError string
  | ValidationError string
  | RuntimeError string
  | JSONDecodeError
  | IndexError
  | AssertionError
  | OtherError string

record NPCSchema =
  s_name :: string
  s_description :: string
  s_personality :: string
  s_resistance :: int
  s_relationship :: int

text \<open>
  The fields of an NPC payload before validation. A field the payload lacks is \<open>None\<close>;
  the fields that are present already have the declared types.
\<close>

record npc_payload =
  p_name :: "string option"
  p_description :: "string option"
  p_personality :: "string option"
  p_resistance :: "int option"
  p_relationship :: "int option"

definition NPCSchema_validate :: "npc_payload \<Rightarrow> py_error + NPCSchema" where
  \<comment> \<open>The field declarations of \<open>NPCSchema\<close>: \<open>name\<close> is required, \<open>description\<close> and
      \<open>personality\<close> default to the empty string, \<open>resistance\<close> is
      \<open>Field(default=5, ge=0)\<close>, \<open>relationship\<close> defaults to 0.\<close>
  "NPCSchema_validate p =
     (case p_name p of
        None \<Rightarrow> Inl (ValidationError ''name: field required'')
      | Some n \<Rightarrow>
          (let r = (case p_resistance p of None \<Rightarrow> 5 | Some v \<Rightarrow> v)
           in if r < 0 then Inl (ValidationError ''resistance: greater than or equal to 0'')
              else Inr \<lparr> s_name = n,
                         s_description = (case p_description p of None \<Rightarrow> [] | Some d \<Rightarrow> d),
                         s_personality = (case p_personality p of None \<Rightarrow> [] | Some d \<Rightarrow> d),
                         s_resistance = r,
                         s_relationship = (case p_relationship p of None \<Rightarrow> 0 | Some v \<Rightarrow> v) \<rparr>))"

definition model_dump :: "NPCSchema \<Rightarrow> npc_payload" where
  \<comment> \<open>\<open>NPCSchema.model_dump()\<close>: a dict with every field.\<close>
  "model_dump s =
     \<lparr> p_name = Some (s_name s), p_description = Some (s_description s),
       p_personality = Some (s_personality s), p_resistance = Some (s_resistance s),
       p_relationship = Some (s_relationship s) \<rparr>"

record BranchSchema =
  title :: string
  b_description :: string

record WorldSetupSchema =
  w_opening_scene :: string
  initial_problem :: string
  w_npcs :: "NPCSchema list"

record TurnResolutionSchema =
  active_npc :: NPCSchema
  npc_response :: string
  outcome_type :: string
  outcome_summary :: string
  npc_resistance_change :: int
  npc_relationship_change :: int
  next_problem :: string
  branches :: "BranchSchema list"
  is_game_over :: bool
  ending_summary :: "string option"

definition normalised_outcome :: "TurnResolutionSchema \<Rightarrow> string" where
  "normalised_outcome r =
     (let outcome = lower (strip (outcome_type r))
      in if outcome \<in> {''success'', ''failure'', ''alternative''}
         then capitalize outcome
         else ''Alternative'')"

section \<open>Game state (models/game_state.py)\<close>

record NPCState =
  name :: string
  description :: string
  personality :: string
  resistance :: int
  relationship :: int

definition adjust :: "NPCState \<Rightarrow> int \<Rightarrow> int \<Rightarrow> NPCState" where
  "adjust npc resistance_delta relationship_delta =
     npc \<lparr> resistance := max 0 (resistance npc + resistance_delta),
           relationship := relationship npc + relationship_delta \<rparr>"

definition from_schema :: "NPCSchema \<Rightarrow> NPCState" where
  "from_schema schema =
     \<lparr> name = s_name schema, description = s_description schema,
       personality = s_personality schema, resistance = s_resistance schema,
       relationship = s_relationship schema \<rparr>"

record TurnRecord =
  turn_number :: int
  npc_name :: string
  dilemma :: string
  player_message :: string
  t_npc_response :: string
  t_outcome_type :: string
  t_outcome_summary :: string
  resistance_shift :: int
  relationship_shift :: int
  t_branches :: "BranchSchema list"

text \<open>
  \<open>npcs\<close> is the dict from NPC name to the NPC object. Every NPC object of the program is
  stored under one key, so mutating the object is updating the map at that key.
  A dumped branch (a dict with the keys title and description) is kept as the
  \<open>BranchSchema\<close> it was dumped from.
\<close>

record GameState =
  world_setting :: string
  opening_scene :: string
  current_problem :: string
  npcs :: "string \<rightharpoonup> NPCState"
  turn_history :: "TurnRecord list"
  total_successes :: int
  total_failures :: int
  pending_branches :: "BranchSchema list"

definition record_turn ::
  "GameState \<Rightarrow> string \<Rightarrow> string \<Rightarrow> string \<Rightarrow> string \<Rightarrow> string \<Rightarrow> string \<Rightarrow> int \<Rightarrow> int
     \<Rightarrow> BranchSchema list \<Rightarrow> GameState \<times> TurnRecord" where
  "record_turn st nm dl pm resp ot os rs ls bs =
     (let rec = \<lparr> turn_number = int (length (turn_history st)) + 1, npc_name = nm,
                   dilemma = dl, player_message = pm, t_npc_response = resp,
                   t_outcome_type = ot, t_outcome_summary = os, resistance_shift = rs,
                   relationship_shift = ls, t_branches = bs \<rparr>;
          st1 = st \<lparr> turn_history := turn_history st @ [rec] \<rparr>;
          st2 = (if lower ot = ''success''
                 then st1 \<lparr> total_successes := total_successes st1 + 1 \<rparr>
                 else if lower ot = ''failure''
                 then st1 \<lparr> total_failures := total_failures st1 + 1 \<rparr>
                 else st1)
      in (st2 \<lparr> pending_branches := bs \<rparr>, rec))"

definition update_npc :: "GameState \<Rightarrow> string \<Rightarrow> int \<Rightarrow> int \<Rightarrow> GameState" where
  "update_npc st nm resistance_delta relationship_delta =
     (case npcs st nm of
        None \<Rightarrow> st
      | Some npc \<Rightarrow>
          st \<lparr> npcs := (npcs st)(nm \<mapsto> adjust npc resistance_delta relationship_delta) \<rparr>)"

definition ensure_npc :: "GameState \<Rightarrow> npc_payload \<Rightarrow> py_error + (GameState \<times> NPCState)" where
  \<comment> \<open>\<open>npc_payload["name"]\<close> raises \<open>KeyError\<close> on a payload without a name.\<close>
  "ensure_npc st payload =
     (case p_name payload of
        None \<Rightarrow> Inl (KeyError ''name'')
      | Some nm \<Rightarrow>
          (case npcs st nm of
             Some npc \<Rightarrow> Inr (st, npc)
           | None \<Rightarrow>
               (let npc = \<lparr> name = nm,
                             description = (case p_description payload of None \<Rightarrow> [] | Some d \<Rightarrow> d),
                             personality = (case p_personality payload of None \<Rightarrow> [] | Some d \<Rightarrow> d),
                             resistance = (case p_resistance payload of None \<Rightarrow> 5 | Some v \<Rightarrow> v),
                             relationship = (case p_relationship payload of None \<Rightarrow> 0 | Some v \<Rightarrow> v) \<rparr>
                in Inr (st \<lparr> npcs := (npcs st)(nm \<mapsto> npc) \<rparr>, npc))))"

fun npcs_of_schemas :: "NPCSchema list \<Rightarrow> (string \<rightharpoonup> NPCState) \<Rightarrow> (string \<rightharpoonup> NPCState)" where
  \<comment> \<open>The dict comprehension of \<open>from_world_schema\<close>: a later schema of the same name wins.\<close>
  "npcs_of_schemas [] m = m"
| "npcs_of_schemas (s # ss) m = npcs_of_schemas ss (m(s_name s \<mapsto> from_schema s))"

definition from_world_schema :: "string \<Rightarrow> WorldSetupSchema \<Rightarrow> GameState" where
  "from_world_schema setting schema =
     \<lparr> world_setting = setting, opening_scene = w_opening_scene schema,
       current_problem = initial_problem schema,
       npcs = npcs_of_schemas (w_npcs schema) Map.empty,
       turn_history = [], total_successes = 0, total_failures = 0, pending_branches = [] \<rparr>"

definition normalize_deltas :: "string \<Rightarrow> int \<Rightarrow> int \<Rightarrow> int \<times> int" where
  \<comment> \<open>\<open>GameState._normalize_deltas\<close>.\<close>
  "normalize_deltas outcome resistance_change relationship_change =
     (let outcome_key = lower (strip outcome)
      in if outcome_key = ''success''
         then (min resistance_change (- 1), max relationship_change 1)
         else if outcome_key = ''failure''
         then (max resistance_change 0, min relationship_change 0)
         else (max (min resistance_change 2) (- 2), max (min relationship_change 2) (- 2)))"

definition apply_resolution ::
  "GameState \<Rightarrow> TurnResolutionSchema \<Rightarrow> string \<Rightarrow> py_error + (GameState \<times> TurnRecord \<times> NPCState)" where
  "apply_resolution st resolution pm =
     (case ensure_npc st (model_dump (active_npc resolution)) of
        Inl e \<Rightarrow> Inl e
      | Inr (st1, npc) \<Rightarrow>
          (let prev_resistance = resistance npc;
               prev_relationship = relationship npc;
               (resistance_delta, relationship_delta) =
                  normalize_deltas (normalised_outcome resolution)
                    (npc_resistance_change resolution) (npc_relationship_change resolution);
               npc' = adjust npc resistance_delta relationship_delta;
               st2 = st1 \<lparr> npcs := (npcs st1)(s_name (active_npc resolution) \<mapsto> npc') \<rparr>;
               actual_resistance_shift = resistance npc' - prev_resistance;
               actual_relationship_shift = relationship npc' - prev_relationship;
               bs = take 3 (branches resolution);
               (st3, rec) = record_turn st2 (name npc') (current_problem st2) pm
                              (npc_response resolution) (normalised_outcome resolution)
                              (outcome_summary resolution) actual_resistance_shift
                              actual_relationship_shift bs;
               st4 = st3 \<lparr> current_problem :=
                              (if next_problem resolution \<noteq> [] then next_problem resolution
                               else current_problem st3) \<rparr>
           in Inr (st4 \<lparr> pending_branches := bs \<rparr>, rec, npc')))"

section \<open>Model client (services/gpt_client.py)\<close>

subsection \<open>JSON recovery\<close>

text \<open>
  \<open>json.loads\<close> belongs to Python's standard library, not to the program: the functions
  below take it as the parameter \<open>loads\<close>, which returns \<open>None\<close> where \<open>json.loads\<close>
  raises \<open>JSONDecodeError\<close>.
\<close>

definition fence :: string where
  "fence = ''```''"

definition strip_code_fences :: "string \<Rightarrow> py_error + string" where
  \<comment> \<open>\<open>lines[0]\<close> raises \<open>IndexError\<close> on an empty list of lines.\<close>
  "strip_code_fences txt =
     (if startswith txt fence \<and> endswith txt fence then
        (case splitlines txt of
           [] \<Rightarrow> Inl IndexError
         | l0 # ls \<Rightarrow>
             (let lines1 = (if startswith (strip l0) fence then ls else l0 # ls);
                  lines2 = (if lines1 \<noteq> [] \<and> strip (last lines1) = fence
                            then butlast lines1 else lines1)
              in Inr (strip (join [CHR 0x0A] lines2))))
      else Inr txt)"

definition slice :: "string \<Rightarrow> nat \<Rightarrow> nat \<Rightarrow> string" where
  \<comment> \<open>\<open>text[i:j]\<close> for indices within the text.\<close>
  "slice txt i j = take (j - i) (drop i txt)"

fun extract_loop ::
  "(string \<Rightarrow> 'j option) \<Rightarrow> string \<Rightarrow> (nat \<times> char) list \<Rightarrow> nat \<Rightarrow> nat option \<Rightarrow> string option" where
  \<comment> \<open>The \<open>for idx, char in enumerate(text)\<close> loop of \<open>_extract_first_json\<close>, with the
      loop variables \<open>depth\<close> and \<open>start_idx\<close>; \<open>None\<close> when the loop ends without
      returning.\<close>
  "extract_loop loads txt [] depth start_idx = None"
| "extract_loop loads txt ((idx, c) # rest) depth start_idx =
     (if c = CHR ''{'' then
        extract_loop loads txt rest (depth + 1) (if depth = 0 then Some idx else start_idx)
      else if c = CHR ''}'' then
        (if depth \<noteq> 0 then
           (case (if depth - 1 = 0 then start_idx else None) of
              Some i \<Rightarrow>
                (let candidate = slice txt i (idx + 1)
                 in case loads candidate of
                      Some v \<Rightarrow> Some candidate
                    | None \<Rightarrow> extract_loop loads txt rest (depth - 1) start_idx)
            | None \<Rightarrow> extract_loop loads txt rest (depth - 1) start_idx)
         else extract_loop loads txt rest depth start_idx)
      else extract_loop loads txt rest depth start_idx)"

definition search_braces :: "string \<Rightarrow> string option" where
  \<comment> \<open>\<open>re.search(r"\{.*\}", text, re.DOTALL)\<close>: from the first opening brace to the last
      closing brace after it.\<close>
  "search_braces txt =
     (let from_open = dropWhile (\<lambda>c. c \<noteq> CHR ''{'') txt;
          span = rev (dropWhile (\<lambda>c. c \<noteq> CHR ''}'') (rev from_open))
      in if span = [] then None else Some span)"

definition extract_first_json :: "(string \<Rightarrow> 'j option) \<Rightarrow> string \<Rightarrow> string option" where
  "extract_first_json loads txt =
     (case extract_loop loads txt (enumerate 0 txt) 0 None of
        Some candidate \<Rightarrow> Some candidate
      | None \<Rightarrow> search_braces txt)"

definition safe_json :: "(string \<Rightarrow> 'j option) \<Rightarrow> string \<Rightarrow> py_error + 'j" where
  \<comment> \<open>The second \<open>json.loads\<close> runs inside the \<open>except\<close> block: its
      \<open>JSONDecodeError\<close> leaves the function.\<close>
  "safe_json loads content =
     (case strip_code_fences (strip content) of
        Inl e \<Rightarrow> Inl e
      | Inr cleaned \<Rightarrow>
          (case loads cleaned of
             Some v \<Rightarrow> Inr v
           | None \<Rightarrow>
               (case extract_first_json loads cleaned of
                  None \<Rightarrow> Inl (RuntimeError ''Model returned invalid JSON and no recoverable payload'')
                | Some extracted \<Rightarrow>
                    (if extracted \<noteq> [] then
                       (case loads extracted of Some v \<Rightarrow> Inr v | None \<Rightarrow> Inl JSONDecodeError)
                     else Inl (RuntimeError ''Model returned invalid JSON and no recoverable payload'')))))"

subsection \<open>Response constraints\<close>

function split_sentences_from :: "string \<Rightarrow> string \<Rightarrow> string list" where
  \<comment> \<open>\<open>re.split(r"(?<=[.!?])\s+", text)\<close>: a run of whitespace that follows a full stop,
      an exclamation mark or a question mark separates two pieces. The first argument
      is the current piece, reversed.\<close>
  "split_sentences_from cur [] = [rev cur]"
| "split_sentences_from cur (c # cs) =
     (if py_isspace c \<and> cur \<noteq> [] \<and> hd cur \<in> {CHR ''.'', CHR ''!'', CHR ''?''}
      then rev cur # split_sentences_from [] (dropWhile py_isspace cs)
      else split_sentences_from (c # cur) cs)"
  by pat_completeness auto
termination
  by (relation "measure (\<lambda>(cur, s). length s)")
     (auto simp add: le_imp_less_Suc length_dropWhile_le)

definition split_sentences :: "string \<Rightarrow> string list" where
  "split_sentences s = split_sentences_from [] s"

fun unique_branches_loop ::
  "BranchSchema list \<Rightarrow> BranchSchema list \<Rightarrow> string set \<Rightarrow> BranchSchema list" where
  \<comment> \<open>The \<open>for branch in resolution.branches\<close> loop, with \<open>unique_branches\<close> and
      \<open>seen_titles\<close>.\<close>
  "unique_branches_loop [] unique seen_titles = unique"
| "unique_branches_loop (branch # rest) unique seen_titles =
     (let ttl = strip (title branch)
      in if lower ttl \<in> seen_titles then unique_branches_loop rest unique seen_titles
         else if length (unique @ [branch]) = 3 then unique @ [branch]
         else unique_branches_loop rest (unique @ [branch]) (insert (lower ttl) seen_titles))"

definition enforce_constraints :: "TurnResolutionSchema \<Rightarrow> py_error + TurnResolutionSchema" where
  \<comment> \<open>\<open>_enforce_constraints\<close> changes the resolution in place; the changed resolution is
      the result.\<close>
  "enforce_constraints resolution =
     (let sentences = filter (\<lambda>s. s \<noteq> []) (split_sentences (strip (npc_response resolution)));
          r1 = (if length sentences > 4
                then resolution \<lparr> npc_response := join '' '' (take 4 sentences) \<rparr>
                else resolution)
      in if length sentences < 3
         then Inl (RuntimeError ''NPC response too short; expected 3-4 sentences'')
         else (let unique = unique_branches_loop (branches r1) [] {}
               in if unique = [] then Inl (RuntimeError ''No viable branches returned by model'')
                  else Inr (r1 \<lparr> branches := unique \<rparr>)))"

subsection \<open>Requests and retries\<close>

text \<open>
  The completion endpoint is the environment: \<open>api n\<close> is what the \<open>n\<close>-th call of
  \<open>chat.completions.create\<close> does, either an exception or the content of the first
  choice. The client's effects are the number of calls made and the delays slept (seconds).
\<close>

datatype api_result = ApiRaises string | ApiContent string

record client_effects =
  calls :: nat
  sleeps :: "rat list"

fun exc_text :: "py_error \<Rightarrow> string" where
  \<comment> \<open>\<open>str(exc)\<close>; a fixed word stands for the text of a library exception.\<close>
  "exc_text (KeyError k) = k"
| "exc_text (ValidationError m) = m"
| "exc_text (RuntimeError m) = m"
| "exc_text JSONDecodeError = ''JSONDecodeError''"
| "exc_text IndexError = ''IndexError''"
| "exc_text AssertionError = []"
| "exc_text (OtherError m) = m"

fun complete_loop ::
  "(nat \<Rightarrow> api_result) \<Rightarrow> nat list \<Rightarrow> rat \<Rightarrow> client_effects \<Rightarrow> (py_error + string) \<times> client_effects" where
  \<comment> \<open>The \<open>for attempt in range(3)\<close> loop of \<open>_complete\<close> with its variable \<open>delay\<close>.
      A loop that ends without returning makes the function return \<open>None\<close>, on which
      the caller's \<open>strip\<close> raises.\<close>
  "complete_loop api [] delay eff = (Inl (OtherError ''AttributeError''), eff)"
| "complete_loop api (attempt # rest) delay eff =
     (case api (calls eff) of
        ApiContent content \<Rightarrow> (Inr (strip content), eff \<lparr> calls := calls eff + 1 \<rparr>)
      | ApiRaises exc \<Rightarrow>
          (if attempt = 2
           then (Inl (RuntimeError (''GPT request failed: '' @ exc)), eff \<lparr> calls := calls eff + 1 \<rparr>)
           else complete_loop api rest (delay * 2)
                  (eff \<lparr> calls := calls eff + 1, sleeps := sleeps eff @ [delay] \<rparr>)))"

definition complete :: "(nat \<Rightarrow> api_result) \<Rightarrow> client_effects \<Rightarrow> (py_error + string) \<times> client_effects" where
  "complete api eff = complete_loop api [0, 1, 2] 1 eff"

definition attempt_once ::
  "(string \<Rightarrow> 'j option) \<Rightarrow> ('j \<Rightarrow> string + TurnResolutionSchema) \<Rightarrow> (nat \<Rightarrow> api_result)
     \<Rightarrow> client_effects \<Rightarrow> (py_error + TurnResolutionSchema) \<times> client_effects" where
  \<comment> \<open>The \<open>try\<close> body of \<open>_request_with_constraints\<close>. \<open>model_validate\<close> is the validation
      library's: the parameter \<open>validate\<close>, \<open>Inl\<close> where it raises \<open>ValidationError\<close>.\<close>
  "attempt_once loads validate api eff =
     (case complete api eff of
        (Inl e, eff1) \<Rightarrow> (Inl e, eff1)
      | (Inr content, eff1) \<Rightarrow>
          (case safe_json loads content of
             Inl e \<Rightarrow> (Inl e, eff1)
           | Inr payload \<Rightarrow>
               (case validate payload of
                  Inl m \<Rightarrow> (Inl (ValidationError m), eff1)
                | Inr schema \<Rightarrow> (enforce_constraints schema, eff1))))"

fun caught :: "py_error \<Rightarrow> bool" where
  \<comment> \<open>\<open>except (RuntimeError, ValidationError)\<close>.\<close>
  "caught (RuntimeError m) = True"
| "caught (ValidationError m) = True"
| "caught e = False"

fun request_loop ::
  "(string \<Rightarrow> 'j option) \<Rightarrow> ('j \<Rightarrow> string + TurnResolutionSchema) \<Rightarrow> (nat \<Rightarrow> api_result)
     \<Rightarrow> nat \<Rightarrow> nat list \<Rightarrow> client_effects \<Rightarrow> (py_error + TurnResolutionSchema) \<times> client_effects" where
  \<comment> \<open>The \<open>for attempt in range(attempts)\<close> loop of \<open>_request_with_constraints\<close>. After a
      loop that ends without returning, the assertion on \<open>last_error\<close> fails.\<close>
  "request_loop loads validate api attempts [] eff = (Inl AssertionError, eff)"
| "request_loop loads validate api attempts (attempt # rest) eff =
     (case attempt_once loads validate api eff of
        (Inr schema, eff1) \<Rightarrow> (Inr schema, eff1)
      | (Inl exc, eff1) \<Rightarrow>
          (if caught exc then
             (if attempt < attempts - 1
              then request_loop loads validate api attempts rest
                     (eff1 \<lparr> sleeps := sleeps eff1 @ [(3 / 2) * (of_nat attempt + 1)] \<rparr>)
              else (Inl (RuntimeError (''Model response failed validation: '' @ exc_text exc)), eff1))
           else (Inl exc, eff1)))"

definition request_with_constraints ::
  "(string \<Rightarrow> 'j option) \<Rightarrow> ('j \<Rightarrow> string + TurnResolutionSchema) \<Rightarrow> (nat \<Rightarrow> api_result)
     \<Rightarrow> client_effects \<Rightarrow> (py_error + TurnResolutionSchema) \<times> client_effects" where
  "request_with_constraints loads validate api eff =
     request_loop loads validate api 3 [0, 1, 2] eff"

section \<open>Controller (controllers/game_controller.py)\<close>

text \<open>
  The view is the environment of the controller: what it is asked to show is kept as a
  list of events, and what the player types is the input of one pass of the loop.
  \<open>plan_turn\<close> of the injected client reads the game state and returns a resolution or
  raises; it is the parameter \<open>plan\<close>.
\<close>

datatype view_event =
    StartTurn
  | NotifyRetryAvailable
  | SayGoodbye
  | NotifyEmptyMessage
  | DisplayError string
  | DisplayTurnResolution TurnRecord NPCState
  | DisplayGameOver string

record Controller =
  c_state :: "GameState option"
  retry_message :: "string option"
  shown :: "view_event list"

record turn_result =
  tr_record :: TurnRecord
  tr_npc :: NPCState
  tr_next_problem :: string
  tr_is_game_over :: bool
  tr_ending_summary :: "string option"

definition handle_command :: "string \<Rightarrow> bool \<times> string option" where
  \<comment> \<open>\<open>CLIView.handle_command\<close>.\<close>
  "handle_command command =
     (let lowered = lower command
      in if lowered \<in> {''log''} then (True, Some ''log'')
         else if lowered \<in> {''quit''} then (True, Some ''quit'')
         else if lowered \<in> {''retry''} then (True, Some ''retry'')
         else (False, None))"

definition display :: "view_event \<Rightarrow> Controller \<Rightarrow> Controller" where
  "display ev c = c \<lparr> shown := shown c @ [ev] \<rparr>"

definition play_turn ::
  "(GameState \<Rightarrow> string \<Rightarrow> py_error + TurnResolutionSchema) \<Rightarrow> Controller \<Rightarrow> string
     \<Rightarrow> py_error + (Controller \<times> turn_result)" where
  \<comment> \<open>\<open>_play_turn\<close>.\<close>
  "play_turn plan c pm =
     (case c_state c of
        None \<Rightarrow> Inl (RuntimeError ''Game state is not initialized. Call _setup_world first.'')
      | Some st \<Rightarrow>
          (case plan st pm of
             Inl e \<Rightarrow> Inl e
           | Inr resolution \<Rightarrow>
               (case apply_resolution st resolution pm of
                  Inl e \<Rightarrow> Inl e
                | Inr (st', rec, npc) \<Rightarrow>
                    Inr (c \<lparr> c_state := Some st' \<rparr>,
                         \<lparr> tr_record = rec, tr_npc = npc, tr_next_problem = current_problem st',
                           tr_is_game_over = is_game_over resolution,
                           tr_ending_summary = ending_summary resolution \<rparr>))))"

definition retry_last_turn ::
  "(GameState \<Rightarrow> string \<Rightarrow> py_error + TurnResolutionSchema) \<Rightarrow> Controller
     \<Rightarrow> py_error + (Controller \<times> turn_result)" where
  \<comment> \<open>\<open>_retry_last_turn\<close>.\<close>
  "retry_last_turn plan c =
     (case retry_message c of
        None \<Rightarrow> Inl AssertionError
      | Some pm \<Rightarrow>
          (case play_turn plan c pm of
             Inl e \<Rightarrow> Inl e
           | Inr (c', res) \<Rightarrow> Inr (c' \<lparr> retry_message := None \<rparr>, res)))"

definition show_result :: "Controller \<Rightarrow> turn_result \<Rightarrow> Controller \<times> bool" where
  \<comment> \<open>The end of a played turn in \<open>run\<close>: the resolution is displayed, and a game that is
      over is announced and leaves the loop.\<close>
  "show_result c res =
     (let c1 = display (DisplayTurnResolution (tr_record res) (tr_npc res)) c
      in if tr_is_game_over res
         then (display (DisplayGameOver
                 (case tr_ending_summary res of
                    None \<Rightarrow> ''The story concludes here.''
                  | Some e \<Rightarrow> if e \<noteq> [] then e else ''The story concludes here.'')) c1, False)
         else (c1, True))"

definition export_journal :: "string \<Rightarrow> Controller \<Rightarrow> Controller" where
  \<comment> \<open>\<open>_export_journal\<close>; the journal writer is outside the model and \<open>path\<close> is the file
      it reports.\<close>
  "export_journal path c =
     (case c_state c of
        None \<Rightarrow> c
      | Some st \<Rightarrow> display (DisplayError (''Journal saved to '' @ path)) c)"

definition truthy :: "string option \<Rightarrow> bool" where
  \<comment> \<open>The truth value of an optional string: neither \<open>None\<close> nor empty.\<close>
  "truthy m = (case m of None \<Rightarrow> False | Some s \<Rightarrow> s \<noteq> [])"

definition loop_step ::
  "(GameState \<Rightarrow> string \<Rightarrow> py_error + TurnResolutionSchema) \<Rightarrow> string \<Rightarrow> Controller
     \<Rightarrow> string option \<times> bool \<Rightarrow> Controller \<times> bool" where
  \<comment> \<open>One pass of the \<open>while True\<close> loop of \<open>run\<close>. The input is what
      \<open>prompt_player_message\<close> returns; the second component of the result is \<open>False\<close>
      when the pass leaves the loop.\<close>
  "loop_step plan path c0 inp =
     (let c1 = display StartTurn c0;
          c2 = (if truthy (retry_message c1) then display NotifyRetryAvailable c1 else c1);
          (player_message, exit_requested) = inp
      in if exit_requested then (display SayGoodbye c2, False)
         else (case player_message of
                 None \<Rightarrow> (display NotifyEmptyMessage c2, True)
               | Some pm \<Rightarrow>
                   if pm = [] then (display NotifyEmptyMessage c2, True)
                   else (case handle_command pm of
                           (True, response) \<Rightarrow>
                             (if response = Some ''quit'' then (display SayGoodbye c2, False)
                              else if response = Some ''log'' then (export_journal path c2, True)
                              else if response = Some ''retry'' then
                                (if \<not> truthy (retry_message c2)
                                 then (display (DisplayError ''No turn available to retry.'') c2, True)
                                 else (case retry_last_turn plan c2 of
                                         Inl exc \<Rightarrow>
                                           (display (DisplayError (''Retry failed: '' @ exc_text exc)) c2, True)
                                       | Inr (c3, res) \<Rightarrow> show_result c3 res))
                              else (c2, True))
                         | (False, response) \<Rightarrow>
                             (let c3 = c2 \<lparr> retry_message := None \<rparr>
                              in case play_turn plan c3 pm of
                                   Inl exc \<Rightarrow>
                                     (display (DisplayError
                                        (''Encounter failed due to an error: '' @ exc_text exc)) c3
                                        \<lparr> retry_message := Some pm \<rparr>, True)
                                 | Inr (c4, res) \<Rightarrow> show_result c4 res))))"

section \<open>A decoder for a fragment of JSON\<close>

text \<open>
  To run the client's functions on concrete texts, \<open>decode_json\<close> decodes the JSON texts
  built from objects, arrays, strings without escapes, integers, \<open>true\<close>, \<open>false\<close> and
  \<open>null\<close>, and returns \<open>None\<close> on every other text.
\<close>

datatype json =
    JNull
  | JBool bool
  | JInt int
  | JString string
  | JArray "json list"
  | JObject "(string \<times> json) list"

definition json_ws :: "char \<Rightarrow> bool" where
  "json_ws c = (c = CHR '' '' \<or> c = CHR 0x09 \<or> c = CHR 0x0A \<or> c = CHR 0x0D)"

definition skip_ws :: "string \<Rightarrow> string" where
  "skip_ws s = dropWhile json_ws s"

definition parse_string :: "string \<Rightarrow> (string \<times> string) option" where
  "parse_string s =
     (case s of
        [] \<Rightarrow> None
      | c # rest \<Rightarrow>
          if c \<noteq> CHR 0x22 then None
          else (let body = takeWhile (\<lambda>d. d \<noteq> CHR 0x22) rest;
                    after = dropWhile (\<lambda>d. d \<noteq> CHR 0x22) rest
                in if after = [] \<or> list_ex (\<lambda>d. d = CHR 0x5C \<or> (of_char d :: nat) < 32) body
                   then None else Some (body, tl after)))"

definition is_digit :: "char \<Rightarrow> bool" where
  "is_digit c = (48 \<le> (of_char c :: nat) \<and> (of_char c :: nat) \<le> 57)"

definition digits_value :: "string \<Rightarrow> int" where
  "digits_value ds = foldl (\<lambda>a d. 10 * a + (int (of_char d) - 48)) 0 ds"

definition parse_int :: "string \<Rightarrow> (int \<times> string) option" where
  "parse_int s =
     (let negative = (s \<noteq> [] \<and> hd s = CHR ''-'');
          s1 = (if negative then tl s else s);
          ds = takeWhile is_digit s1;
          rest = dropWhile is_digit s1
      in if ds = [] \<or> (length ds > 1 \<and> hd ds = CHR ''0'') then None
         else if rest \<noteq> [] \<and> hd rest \<in> {CHR ''.'', CHR ''e'', CHR ''E''} then None
         else Some (if negative then - digits_value ds else digits_value ds, rest))"

fun parse_value :: "nat \<Rightarrow> string \<Rightarrow> (json \<times> string) option"
  and parse_members :: "nat \<Rightarrow> string \<Rightarrow> (string \<times> json) list \<Rightarrow> (json \<times> string) option"
  and parse_elems :: "nat \<Rightarrow> string \<Rightarrow> json list \<Rightarrow> (json \<times> string) option" where
  "parse_value 0 s = None"
| "parse_value (Suc n) s =
     (case s of
        [] \<Rightarrow> None
      | c # cs \<Rightarrow>
          if c = CHR ''{'' then
            (case skip_ws cs of
               [] \<Rightarrow> None
             | d # ds \<Rightarrow> if d = CHR ''}'' then Some (JObject [], ds)
                         else parse_members n (d # ds) [])
          else if c = CHR ''['' then
            (case skip_ws cs of
               [] \<Rightarrow> None
             | d # ds \<Rightarrow> if d = CHR '']'' then Some (JArray [], ds)
                         else parse_elems n (d # ds) [])
          else if c = CHR 0x22 then
            (case parse_string s of None \<Rightarrow> None | Some (b, r) \<Rightarrow> Some (JString b, r))
          else if take 4 s = ''true'' then Some (JBool True, drop 4 s)
          else if take 5 s = ''false'' then Some (JBool False, drop 5 s)
          else if take 4 s = ''null'' then Some (JNull, drop 4 s)
          else (case parse_int s of None \<Rightarrow> None | Some (i, r) \<Rightarrow> Some (JInt i, r)))"
| "parse_members 0 s acc = None"
| "parse_members (Suc n) s acc =
     (case parse_string s of
        None \<Rightarrow> None
      | Some (k, r1) \<Rightarrow>
          (case skip_ws r1 of
             [] \<Rightarrow> None
           | c # r2 \<Rightarrow>
               if c \<noteq> CHR '':'' then None
               else (case parse_value n (skip_ws r2) of
                       None \<Rightarrow> None
                     | Some (v, r3) \<Rightarrow>
                         (case skip_ws r3 of
                            [] \<Rightarrow> None
                          | d # r4 \<Rightarrow>
                              if d = CHR '','' then parse_members n (skip_ws r4) (acc @ [(k, v)])
                              else if d = CHR ''}'' then Some (JObject (acc @ [(k, v)]), r4)
                              else None))))"
| "parse_elems 0 s acc = None"
| "parse_elems (Suc n) s acc =
     (case parse_value n s of
        None \<Rightarrow> None
      | Some (v, r1) \<Rightarrow>
          (case skip_ws r1 of
             [] \<Rightarrow> None
           | d # r2 \<Rightarrow>
               if d = CHR '','' then parse_elems n (skip_ws r2) (acc @ [v])
               else if d = CHR '']'' then Some (JArray (acc @ [v]), r2)
               else None))"

definition decode_json :: "string \<Rightarrow> json option" where
  "decode_json s =
     (case parse_value (length s + 1) (skip_ws s) of
        None \<Rightarrow> None
      | Some (v, rest) \<Rightarrow> if skip_ws rest = [] then Some v else None)"

section \<open>Games and invariants\<close>

text \<open>
  A game applies one resolution after the other to the state, as the controller's loop
  does through \<open>_play_turn\<close>.
\<close>

fun play_turns :: "GameState \<Rightarrow> (TurnResolutionSchema \<times> string) list \<Rightarrow> py_error + GameState" where
  "play_turns st [] = Inr st"
| "play_turns st ((resolution, pm) # rest) =
     (case apply_resolution st resolution pm of
        Inl e \<Rightarrow> Inl e
      | Inr (st', rec, npc) \<Rightarrow> play_turns st' rest)"

definition resistance_ok :: "GameState \<Rightarrow> bool" where
  \<comment> \<open>Every stored NPC has a non-negative resistance.\<close>
  "resistance_ok st = (\<forall>nm npc. npcs st nm = Some npc \<longrightarrow> 0 \<le> resistance npc)"

definition is_success :: "TurnRecord \<Rightarrow> bool" where
  \<comment> \<open>A record of the Success category.\<close>
  "is_success rec = (t_outcome_type rec = ''Success'')"

definition is_failure :: "TurnRecord \<Rightarrow> bool" where
  \<comment> \<open>A record of the Failure category.\<close>
  "is_failure rec = (t_outcome_type rec = ''Failure'')"

definition stored_npc :: "GameState \<Rightarrow> NPCSchema \<Rightarrow> NPCState" where
  \<comment> \<open>The NPC that \<open>ensure_npc\<close> returns for a dumped schema: the stored one of that
      name, or a new one with the schema's fields.\<close>
  "stored_npc st a = (case npcs st (s_name a) of Some n \<Rightarrow> n | None \<Rightarrow> from_schema a)"

section \<open>Data of the unit tests (tests/test_models.py)\<close>

definition alex_schema :: NPCSchema where
  "alex_schema =
     \<lparr> s_name = ''Alex'', s_description = [], s_personality = ''Stoic'',
       s_resistance = 4, s_relationship = 1 \<rparr>"

definition test_world :: WorldSetupSchema where
  "test_world =
     \<lparr> w_opening_scene = ''Scene'', initial_problem = ''Initial problem'',
       w_npcs = [alex_schema] \<rparr>"

definition test_state :: GameState where
  \<comment> \<open>\<open>build_game_state()\<close>.\<close>
  "test_state = from_world_schema ''Test World'' test_world"

definition conflicting_resolution :: TurnResolutionSchema where
  \<comment> \<open>The resolution of \<open>test_normalize_deltas_clamps_conflicting_values\<close>.\<close>
  "conflicting_resolution =
     \<lparr> active_npc = alex_schema,
       npc_response = ''Sentence one. Sentence two. Sentence three.'',
       outcome_type = ''Success'', outcome_summary = ''You convinced Alex.'',
       npc_resistance_change = 2, npc_relationship_change = - 3,
       next_problem = ''Next dilemma'',
       branches = [\<lparr> title = ''A'', b_description = [] \<rparr>],
       is_game_over = False, ending_summary = None \<rparr>"

definition sam :: NPCState where
  \<comment> \<open>The NPC of \<open>test_npc_adjust_clamps_resistance\<close>.\<close>
  "sam = \<lparr> name = ''Sam'', description = [], personality = [], resistance = 1, relationship = 0 \<rparr>"

definition iris_schema :: NPCSchema where
  \<comment> \<open>The NPC of \<open>FakeGPTClient\<close> in tests/test_controller.py.\<close>
  "iris_schema =
     \<lparr> s_name = ''Iris'', s_description = [], s_personality = ''Calm'',
       s_resistance = 3, s_relationship = 1 \<rparr>"

definition iris_resolution :: TurnResolutionSchema where
  \<comment> \<open>What \<open>FakeGPTClient.plan_turn\<close> returns.\<close>
  "iris_resolution =
     \<lparr> active_npc = iris_schema,
       npc_response = ''Sentence one. Sentence two. Sentence three.'',
       outcome_type = ''Success'', outcome_summary = ''You succeed.'',
       npc_resistance_change = - 1, npc_relationship_change = 1,
       next_problem = ''Next problem'',
       branches = [\<lparr> title = ''A'', b_description = [] \<rparr>, \<lparr> title = ''B'', b_description = [] \<rparr>,
                   \<lparr> title = ''C'', b_description = [] \<rparr>],
       is_game_over = False, ending_summary = None \<rparr>"

definition name_only :: "string \<Rightarrow> npc_payload" where
  \<comment> \<open>A payload with a name and nothing else.\<close>
  "name_only nm =
     \<lparr> p_name = Some nm, p_description = None, p_personality = None, p_resistance = None,
       p_relationship = None \<rparr>"

section \<open>Validation of a world payload\<close>

text \<open>
  The fields of a world payload before validation. \<open>WorldSetupSchema\<close> validates every
  element of \<open>npcs\<close> as an \<open>NPCSchema\<close>; one invalid element makes the payload invalid.
\<close>

record world_payload =
  wp_opening_scene :: "string option"
  wp_initial_problem :: "string option"
  wp_npcs :: "npc_payload list option"

fun validate_npcs :: "npc_payload list \<Rightarrow> py_error + NPCSchema list" where
  "validate_npcs [] = Inr []"
| "validate_npcs (p # ps) =
     (case NPCSchema_validate p of
        Inl e \<Rightarrow> Inl e
      | Inr s \<Rightarrow> (case validate_npcs ps of Inl e \<Rightarrow> Inl e | Inr ss \<Rightarrow> Inr (s # ss)))"

definition WorldSetupSchema_validate :: "world_payload \<Rightarrow> py_error + WorldSetupSchema" where
  \<comment> \<open>The field declarations of \<open>WorldSetupSchema\<close>: \<open>opening_scene\<close> is required,
      \<open>initial_problem\<close> has a default text, \<open>npcs\<close> defaults to the empty list.\<close>
  "WorldSetupSchema_validate wp =
     (case wp_opening_scene wp of
        None \<Rightarrow> Inl (ValidationError ''opening_scene: field required'')
      | Some scene \<Rightarrow>
          (case validate_npcs (case wp_npcs wp of None \<Rightarrow> [] | Some ps \<Rightarrow> ps) of
             Inl e \<Rightarrow> Inl e
           | Inr ss \<Rightarrow>
               Inr \<lparr> w_opening_scene = scene,
                     initial_problem =
                       (case wp_initial_problem wp of
                          None \<Rightarrow> ''Convince someone to listen.'' | Some t \<Rightarrow> t),
                     w_npcs = ss \<rparr>))"

definition alex_payload :: npc_payload where
  \<comment> \<open>The NPC dict of \<open>build_game_state()\<close>.\<close>
  "alex_payload =
     \<lparr> p_name = Some ''Alex'', p_description = Some [], p_personality = Some ''Stoic'',
       p_resistance = Some 4, p_relationship = Some 1 \<rparr>"

definition test_world_payload :: world_payload where
  "test_world_payload =
     \<lparr> wp_opening_scene = Some ''Scene'', wp_initial_problem = Some ''Initial problem'',
       wp_npcs = Some [alex_payload] \<rparr>"

section \<open>Events of a pass and data of the controller tests (tests/test_controller.py)\<close>

definition prelude :: "Controller \<Rightarrow> view_event list" where
  \<comment> \<open>What has been shown once a pass of the loop has started the turn.\<close>
  "prelude c =
     shown c @ [StartTurn] @ (if truthy (retry_message c) then [NotifyRetryAvailable] else [])"

definition fake_plan :: "GameState \<Rightarrow> string \<Rightarrow> py_error + TurnResolutionSchema" where
  \<comment> \<open>\<open>FakeGPTClient.plan_turn\<close>.\<close>
  "fake_plan st pm = Inr iris_resolution"

definition failing_plan :: "GameState \<Rightarrow> string \<Rightarrow> py_error + TurnResolutionSchema" where
  \<comment> \<open>A client whose request fails.\<close>
  "failing_plan st pm = Inl (RuntimeError ''GPT request failed: timeout'')"

definition fresh_controller :: Controller where
  \<comment> \<open>The controller after \<open>_setup_world\<close>, on the state of tests/test_models.py.\<close>
  "fresh_controller = \<lparr> c_state = Some test_state, retry_message = None, shown = [] \<rparr>"

definition failed_once :: Controller where
  \<comment> \<open>The controller after a turn with the message Hello has failed.\<close>
  "failed_once =
     fresh_controller
       \<lparr> retry_message := Some ''Hello'',
         shown := [StartTurn,
           DisplayError ''Encounter failed due to an error: GPT request failed: timeout''] \<rparr>"

section \<open>Brace groups\<close>

text \<open>
  The top-level brace groups of a text, read from left to right with a depth counter that
  knows nothing of string literals: a group opens at an opening brace met at depth 0 and
  closes at the closing brace that brings the depth back to 0; a closing brace met at
  depth 0 is skipped. The third argument collects the characters of the open group, in
  reverse.
\<close>

fun groups_scan :: "string \<Rightarrow> nat \<Rightarrow> string \<Rightarrow> string list" where
  "groups_scan [] depth cur = []"
| "groups_scan (c # cs) depth cur =
     (if c = CHR ''{'' then groups_scan cs (depth + 1) (c # cur)
      else if c = CHR ''}'' then
        (if depth = 0 then groups_scan cs 0 []
         else if depth = 1 then rev (c # cur) # groups_scan cs 0 []
         else groups_scan cs (depth - 1) (c # cur))
      else groups_scan cs depth (if depth = 0 then [] else c # cur))"

definition brace_groups :: "string \<Rightarrow> string list" where
  "brace_groups txt = groups_scan txt 0 []"

section \<open>Texts of the client tests (tests/test_gpt_utils.py) and others\<close>

definition fenced_value :: string where
  \<comment> \<open>The content of \<open>test_safe_json_recovers_from_fenced_content\<close>.\<close>
  "fenced_value = ''```'' @ [CHR 0x0A] @ ''{\"value\": 10}'' @ [CHR 0x0A] @ ''```''"

definition noisy_object :: string where
  \<comment> \<open>The text of \<open>test_extract_first_json_handles_embedded_text\<close>.\<close>
  "noisy_object = ''Noise {\"key\": 1} trailing''"

definition brace_in_string :: string where
  \<comment> \<open>An object after a stray letter, with a closing brace inside a string literal.\<close>
  "brace_in_string = ''x {\"a\":\"}\"}''"

definition unclosed_before_object :: string where
  \<comment> \<open>An opening brace that is never closed, followed by an object.\<close>
  "unclosed_before_object = ''Use { for objects: {\"a\": 1}''"

definition trailing_comma :: string where
  \<comment> \<open>An object with a trailing comma, which JSON does not allow.\<close>
  "trailing_comma = ''{\"outcome_type\": \"Success\",}''"

definition no_client_effects :: client_effects where
  "no_client_effects = \<lparr> calls = 0, sleeps = [] \<rparr>"

section \<open>Outcome categories\<close>

lemma lower_strip_Success: "lower (strip ''Success'') = ''success''"
  by code_simp

lemma lower_strip_Failure: "lower (strip ''Failure'') = ''failure''"
  by code_simp

lemma lower_strip_Alternative: "lower (strip ''Alternative'') = ''alternative''"
  by code_simp

lemma lower_Success: "lower ''Success'' = ''success''"
  by code_simp

lemma lower_Failure: "lower ''Failure'' = ''failure''"
  by code_simp

lemma lower_Alternative: "lower ''Alternative'' = ''alternative''"
  by code_simp

lemma capitalize_success: "capitalize ''success'' = ''Success''"
  by code_simp

lemma capitalize_failure: "capitalize ''failure'' = ''Failure''"
  by code_simp

lemma capitalize_alternative: "capitalize ''alternative'' = ''Alternative''"
  by code_simp

lemma normalised_outcome_cases:
  "normalised_outcome r =
     (if lower (strip (outcome_type r)) = ''success'' then ''Success''
      else if lower (strip (outcome_type r)) = ''failure'' then ''Failure''
      else ''Alternative'')"
  by (auto simp add: normalised_outcome_def Let_def capitalize_success capitalize_failure
      capitalize_alternative)

lemma normalised_outcome_range:
  "normalised_outcome r = ''Success'' \<or> normalised_outcome r = ''Failure''
     \<or> normalised_outcome r = ''Alternative''"
  by (simp add: normalised_outcome_cases)

lemma normalize_deltas_Success: "normalize_deltas ''Success'' rc lc = (min rc (- 1), max lc 1)"
  by (simp add: normalize_deltas_def lower_strip_Success)

lemma normalize_deltas_Failure: "normalize_deltas ''Failure'' rc lc = (max rc 0, min lc 0)"
  by (simp add: normalize_deltas_def lower_strip_Failure)

lemma normalize_deltas_Alternative:
  "normalize_deltas ''Alternative'' rc lc = (max (min rc 2) (- 2), max (min lc 2) (- 2))"
  by (simp add: normalize_deltas_def lower_strip_Alternative)

section \<open>Applying a resolution\<close>

lemma ensure_npc_model_dump:
  "ensure_npc st (model_dump a) =
     (case npcs st (s_name a) of
        Some npc \<Rightarrow> Inr (st, npc)
      | None \<Rightarrow> Inr (st \<lparr> npcs := (npcs st)(s_name a \<mapsto> from_schema a) \<rparr>, from_schema a))"
  by (simp add: ensure_npc_def model_dump_def from_schema_def Let_def split: option.splits)

text \<open>
  The whole effect of \<open>apply_resolution\<close> in one equation: it never raises, and the new
  state, the record and the returned NPC are these.
\<close>

lemma apply_resolution_unfold:
  "apply_resolution st r pm =
     (let a = active_npc r;
          npc0 = stored_npc st a;
          d = normalize_deltas (normalised_outcome r) (npc_resistance_change r)
                (npc_relationship_change r);
          npc' = adjust npc0 (fst d) (snd d);
          rec = \<lparr> turn_number = int (length (turn_history st)) + 1, npc_name = name npc0,
                  dilemma = current_problem st, player_message = pm,
                  t_npc_response = npc_response r, t_outcome_type = normalised_outcome r,
                  t_outcome_summary = outcome_summary r,
                  resistance_shift = resistance npc' - resistance npc0,
                  relationship_shift = relationship npc' - relationship npc0,
                  t_branches = take 3 (branches r) \<rparr>
      in Inr (st \<lparr> npcs := (npcs st)(s_name a \<mapsto> npc'),
                    turn_history := turn_history st @ [rec],
                    total_successes :=
                      total_successes st + (if normalised_outcome r = ''Success'' then 1 else 0),
                    total_failures :=
                      total_failures st + (if normalised_outcome r = ''Failure'' then 1 else 0),
                    current_problem :=
                      (if next_problem r \<noteq> [] then next_problem r else current_problem st),
                    pending_branches := take 3 (branches r) \<rparr>, rec, npc'))"
  using normalised_outcome_range [of r]
  by (auto simp add: apply_resolution_def ensure_npc_model_dump stored_npc_def record_turn_def
      Let_def adjust_def lower_Success lower_Failure lower_Alternative
      split: option.splits prod.splits)

text \<open>
  C1. The deltas that \<open>apply_resolution\<close> passes to \<open>adjust\<close> are the proposed changes
  clamped by the normalised outcome. On Success the resistance delta is the proposal capped
  at -1 from above and the relationship delta the proposal raised to at least 1; on Failure
  the resistance delta is the proposal raised to at least 0 and the relationship delta the
  proposal capped at 0; on every other outcome both proposals are clamped into the interval
  from -2 to 2. So a proposal within the category's range is applied as it is, and one
  outside it is replaced by the nearest bound. The NPC returned and stored is the NPC found
  or inserted by \<open>ensure_npc\<close>, adjusted by these deltas.
\<close>

theorem apply_resolution_clamps_deltas:
  "let d = normalize_deltas (normalised_outcome r) (npc_resistance_change r)
             (npc_relationship_change r)
   in (\<exists>st1 npc0 st' rec.
         ensure_npc st (model_dump (active_npc r)) = Inr (st1, npc0) \<and>
         apply_resolution st r pm = Inr (st', rec, adjust npc0 (fst d) (snd d)) \<and>
         npcs st' (s_name (active_npc r)) = Some (adjust npc0 (fst d) (snd d))) \<and>
      (if normalised_outcome r = ''Success'' then fst d \<le> - 1 \<and> 1 \<le> snd d
       else if normalised_outcome r = ''Failure'' then 0 \<le> fst d \<and> snd d \<le> 0
       else - 2 \<le> fst d \<and> fst d \<le> 2 \<and> - 2 \<le> snd d \<and> snd d \<le> 2) \<and>
      (if normalised_outcome r = ''Success''
       then fst d = min (npc_resistance_change r) (- 1) \<and>
            snd d = max (npc_relationship_change r) 1
       else if normalised_outcome r = ''Failure''
       then fst d = max (npc_resistance_change r) 0 \<and>
            snd d = min (npc_relationship_change r) 0
       else fst d = max (min (npc_resistance_change r) 2) (- 2) \<and>
            snd d = max (min (npc_relationship_change r) 2) (- 2)) \<and>
      (if normalised_outcome r = ''Success''
       then fst d = (if npc_resistance_change r \<le> - 1 then npc_resistance_change r else - 1) \<and>
            snd d = (if 1 \<le> npc_relationship_change r then npc_relationship_change r else 1)
       else if normalised_outcome r = ''Failure''
       then fst d = (if 0 \<le> npc_resistance_change r then npc_resistance_change r else 0) \<and>
            snd d = (if npc_relationship_change r \<le> 0 then npc_relationship_change r else 0)
       else fst d = (if npc_resistance_change r < - 2 then - 2
                     else if 2 < npc_resistance_change r then 2
                     else npc_resistance_change r) \<and>
            snd d = (if npc_relationship_change r < - 2 then - 2
                     else if 2 < npc_relationship_change r then 2
                     else npc_relationship_change r))"
proof -
  define d where "d = normalize_deltas (normalised_outcome r) (npc_resistance_change r)
    (npc_relationship_change r)"
  have range: "if normalised_outcome r = ''Success'' then fst d \<le> - 1 \<and> 1 \<le> snd d
       else if normalised_outcome r = ''Failure'' then 0 \<le> fst d \<and> snd d \<le> 0
       else - 2 \<le> fst d \<and> fst d \<le> 2 \<and> - 2 \<le> snd d \<and> snd d \<le> 2"
    unfolding d_def using normalised_outcome_range [of r]
    by (auto simp add: normalize_deltas_Success normalize_deltas_Failure
        normalize_deltas_Alternative)
  have exact: "if normalised_outcome r = ''Success''
       then fst d = min (npc_resistance_change r) (- 1) \<and>
            snd d = max (npc_relationship_change r) 1
       else if normalised_outcome r = ''Failure''
       then fst d = max (npc_resistance_change r) 0 \<and>
            snd d = min (npc_relationship_change r) 0
       else fst d = max (min (npc_resistance_change r) 2) (- 2) \<and>
            snd d = max (min (npc_relationship_change r) 2) (- 2)"
    unfolding d_def using normalised_outcome_range [of r]
    by (auto simp add: normalize_deltas_Success normalize_deltas_Failure
        normalize_deltas_Alternative)
  have nearest: "if normalised_outcome r = ''Success''
       then fst d = (if npc_resistance_change r \<le> - 1 then npc_resistance_change r else - 1) \<and>
            snd d = (if 1 \<le> npc_relationship_change r then npc_relationship_change r else 1)
       else if normalised_outcome r = ''Failure''
       then fst d = (if 0 \<le> npc_resistance_change r then npc_resistance_change r else 0) \<and>
            snd d = (if npc_relationship_change r \<le> 0 then npc_relationship_change r else 0)
       else fst d = (if npc_resistance_change r < - 2 then - 2
                     else if 2 < npc_resistance_change r then 2
                     else npc_resistance_change r) \<and>
            snd d = (if npc_relationship_change r < - 2 then - 2
                     else if 2 < npc_relationship_change r then 2
                     else npc_relationship_change r)"
    unfolding d_def using normalised_outcome_range [of r]
    by (auto simp add: normalize_deltas_Success normalize_deltas_Failure
        normalize_deltas_Alternative)
  from range exact nearest have bounds: "(if normalised_outcome r = ''Success'' then fst d \<le> - 1 \<and> 1 \<le> snd d
       else if normalised_outcome r = ''Failure'' then 0 \<le> fst d \<and> snd d \<le> 0
       else - 2 \<le> fst d \<and> fst d \<le> 2 \<and> - 2 \<le> snd d \<and> snd d \<le> 2) \<and>
      (if normalised_outcome r = ''Success''
       then fst d = min (npc_resistance_change r) (- 1) \<and>
            snd d = max (npc_relationship_change r) 1
       else if normalised_outcome r = ''Failure''
       then fst d = max (npc_resistance_change r) 0 \<and>
            snd d = min (npc_relationship_change r) 0
       else fst d = max (min (npc_resistance_change r) 2) (- 2) \<and>
            snd d = max (min (npc_relationship_change r) 2) (- 2)) \<and>
      (if normalised_outcome r = ''Success''
       then fst d = (if npc_resistance_change r \<le> - 1 then npc_resistance_change r else - 1) \<and>
            snd d = (if 1 \<le> npc_relationship_change r then npc_relationship_change r else 1)
       else if normalised_outcome r = ''Failure''
       then fst d = (if 0 \<le> npc_resistance_change r then npc_resistance_change r else 0) \<and>
            snd d = (if npc_relationship_change r \<le> 0 then npc_relationship_change r else 0)
       else fst d = (if npc_resistance_change r < - 2 then - 2
                     else if 2 < npc_resistance_change r then 2
                     else npc_resistance_change r) \<and>
            snd d = (if npc_relationship_change r < - 2 then - 2
                     else if 2 < npc_relationship_change r then 2
                     else npc_relationship_change r))"
    by (intro conjI)
  have ens: "ensure_npc st (model_dump (active_npc r)) =
      Inr (case npcs st (s_name (active_npc r)) of Some n \<Rightarrow> st
             | None \<Rightarrow> st \<lparr> npcs := (npcs st)(s_name (active_npc r) \<mapsto> from_schema (active_npc r)) \<rparr>,
           stored_npc st (active_npc r))"
    by (simp add: ensure_npc_model_dump stored_npc_def split: option.splits)
  have app: "\<exists>st' rec.
      apply_resolution st r pm =
        Inr (st', rec, adjust (stored_npc st (active_npc r)) (fst d) (snd d)) \<and>
      npcs st' (s_name (active_npc r)) =
        Some (adjust (stored_npc st (active_npc r)) (fst d) (snd d))"
    unfolding d_def by (simp add: apply_resolution_unfold Let_def)
  from ens app bounds show ?thesis
    unfolding d_def [symmetric] Let_def by blast
qed

text \<open>
  C8. \<open>update_npc\<close> on a name that is not a key of the NPC mapping returns the state as it
  was: every NPC, the history and all counters are unchanged. The function has no
  raising branch.
\<close>

theorem update_npc_absent_noop:
  "npcs st nm = None \<Longrightarrow> update_npc st nm resistance_delta relationship_delta = st"
  by (simp add: update_npc_def)

section \<open>The unit tests' state\<close>

lemma test_state_npcs: "npcs test_state = [''Alex'' \<mapsto> from_schema alex_schema]"
  by (simp add: test_state_def from_world_schema_def test_world_def alex_schema_def)

lemma resistance_ok_test_state: "resistance_ok test_state"
  by (simp add: resistance_ok_def test_state_npcs from_schema_def alex_schema_def)

lemma normalised_conflicting: "normalised_outcome conflicting_resolution = ''Success''"
  by (simp add: normalised_outcome_cases conflicting_resolution_def lower_strip_Success)

theorem update_npc_absent_noop_witness:
  "npcs test_state ''Sam'' = None \<and> update_npc test_state ''Sam'' (- 5) 3 = test_state"
proof -
  have h: "npcs test_state ''Sam'' = None" by (simp add: test_state_npcs)
  from update_npc_absent_noop [OF h] h show ?thesis by simp
qed

lemma lower_strip_padded_failure: "lower (strip '' FAILURE '') = ''failure''"
  by code_simp

lemma lower_strip_Partial: "lower (strip ''Partial'') = ''partial''"
  by code_simp

theorem apply_resolution_clamps_deltas_witness:
  "normalize_deltas (normalised_outcome conflicting_resolution) 2 (- 3) = (- 1, 1) \<and>
   normalize_deltas
     (normalised_outcome
        (conflicting_resolution \<lparr> npc_resistance_change := - 3, npc_relationship_change := 2 \<rparr>))
     (- 3) 2 = (- 3, 2) \<and>
   normalize_deltas
     (normalised_outcome
        (conflicting_resolution \<lparr> outcome_type := '' FAILURE '', npc_resistance_change := - 4,
           npc_relationship_change := 5 \<rparr>))
     (- 4) 5 = (0, 0) \<and>
   normalize_deltas
     (normalised_outcome
        (conflicting_resolution \<lparr> outcome_type := ''Partial'', npc_resistance_change := 7,
           npc_relationship_change := - 1 \<rparr>))
     7 (- 1) = (2, - 1)"
proof -
  let ?keep = "conflicting_resolution \<lparr> npc_resistance_change := - 3, npc_relationship_change := 2 \<rparr>"
  let ?fail = "conflicting_resolution \<lparr> outcome_type := '' FAILURE '', npc_resistance_change := - 4,
           npc_relationship_change := 5 \<rparr>"
  let ?alt = "conflicting_resolution \<lparr> outcome_type := ''Partial'', npc_resistance_change := 7,
           npc_relationship_change := - 1 \<rparr>"
  have o1: "normalised_outcome conflicting_resolution = ''Success''"
    by (rule normalised_conflicting)
  have o2: "normalised_outcome ?keep = ''Success''"
    by (simp add: normalised_outcome_cases conflicting_resolution_def lower_strip_Success)
  have o3: "normalised_outcome ?fail = ''Failure''"
    by (simp add: normalised_outcome_cases conflicting_resolution_def lower_strip_padded_failure)
  have o4: "normalised_outcome ?alt = ''Alternative''"
    by (simp add: normalised_outcome_cases conflicting_resolution_def lower_strip_Partial)
  have c1: "npc_resistance_change conflicting_resolution = 2"
    "npc_relationship_change conflicting_resolution = - 3"
    by (simp_all add: conflicting_resolution_def)
  note t1 = apply_resolution_clamps_deltas [of conflicting_resolution test_state "''Hello''",
      unfolded Let_def, THEN conjunct2, THEN conjunct2, THEN conjunct1]
  note t2 = apply_resolution_clamps_deltas [of ?keep test_state "''Hello''",
      unfolded Let_def, THEN conjunct2, THEN conjunct2, THEN conjunct1]
  note t3 = apply_resolution_clamps_deltas [of ?fail test_state "''Hello''",
      unfolded Let_def, THEN conjunct2, THEN conjunct2, THEN conjunct1]
  note t4 = apply_resolution_clamps_deltas [of ?alt test_state "''Hello''",
      unfolded Let_def, THEN conjunct2, THEN conjunct2, THEN conjunct1]
  have e1: "normalize_deltas (normalised_outcome conflicting_resolution) 2 (- 3) = (- 1, 1)"
    using t1 by (simp add: o1 c1 prod_eq_iff)
  have e2: "normalize_deltas (normalised_outcome ?keep) (- 3) 2 = (- 3, 2)"
    using t2 by (simp add: o2 prod_eq_iff)
  have e3: "normalize_deltas (normalised_outcome ?fail) (- 4) 5 = (0, 0)"
    using t3 by (simp add: o3 prod_eq_iff)
  have e4: "normalize_deltas (normalised_outcome ?alt) 7 (- 1) = (2, - 1)"
    using t4 by (simp add: o4 prod_eq_iff)
  from e1 e2 e3 e4 show ?thesis by blast
qed

section \<open>Resistance stays non-negative\<close>

lemma resistance_adjust: "0 \<le> resistance (adjust npc rd ld)"
  by (simp add: adjust_def)

lemma resistance_ok_update:
  "resistance_ok st \<Longrightarrow> resistance_ok (st \<lparr> npcs := (npcs st)(k \<mapsto> adjust npc rd ld) \<rparr>)"
  by (simp add: resistance_ok_def resistance_adjust)

lemma resistance_ok_apply:
  assumes "resistance_ok st" and "apply_resolution st r pm = Inr (st', rec, npc')"
  shows "resistance_ok st' \<and> 0 \<le> resistance npc'"
  using assms
  by (auto simp add: apply_resolution_unfold Let_def resistance_ok_def resistance_adjust
      split: if_splits)

text \<open>
  C2. \<open>adjust\<close> sets the resistance to \<open>max 0 (resistance + delta)\<close>, which is never
  negative, and adds the relationship delta without any clamp. Hence, in a state whose
  NPCs all have a non-negative resistance, \<open>update_npc\<close> and \<open>apply_resolution\<close> leave
  every NPC, the adjusted one included, with a non-negative resistance.
\<close>

theorem adjust_keeps_resistance_non_negative:
  assumes "resistance_ok st"
  shows "resistance (adjust npc rd ld) = max 0 (resistance npc + rd) \<and>
         relationship (adjust npc rd ld) = relationship npc + ld \<and>
         0 \<le> resistance (adjust npc rd ld) \<and>
         resistance_ok (update_npc st nm rd ld) \<and>
         (\<exists>st' rec npc'. apply_resolution st r pm = Inr (st', rec, npc') \<and>
            0 \<le> resistance npc' \<and> resistance_ok st')"
proof -
  have a: "resistance (adjust npc rd ld) = max 0 (resistance npc + rd)"
    and b: "relationship (adjust npc rd ld) = relationship npc + ld"
    by (simp_all add: adjust_def)
  have c: "resistance_ok (update_npc st nm rd ld)"
    using assms by (auto simp add: update_npc_def resistance_ok_update split: option.splits)
  obtain st' rec npc' where app: "apply_resolution st r pm = Inr (st', rec, npc')"
    by (simp add: apply_resolution_unfold Let_def)
  from resistance_ok_apply [OF assms app] app a b c show ?thesis
    by (simp add: resistance_adjust)
qed

theorem adjust_keeps_resistance_non_negative_witness:
  "resistance_ok test_state \<and>
   resistance (adjust sam (- 5) 3) = 0 \<and> relationship (adjust sam (- 5) 3) = 3 \<and>
   resistance_ok (update_npc test_state ''Alex'' (- 5) 3) \<and>
   (\<exists>st' rec npc'.
      apply_resolution test_state conflicting_resolution ''Hello'' = Inr (st', rec, npc') \<and>
      0 \<le> resistance npc' \<and> resistance_ok st')"
  using adjust_keeps_resistance_non_negative
    [OF resistance_ok_test_state, of sam "- 5" 3 "''Alex''" conflicting_resolution "''Hello''"]
  by (simp add: resistance_ok_test_state sam_def)

section \<open>The active NPC of a resolution\<close>

lemma normalised_outcome_active_npc:
  "normalised_outcome (r \<lparr> active_npc := a \<rparr>) = normalised_outcome r"
  by (simp add: normalised_outcome_def)

lemma stored_npc_existing:
  "npcs st (s_name a) = Some npc \<Longrightarrow> stored_npc st a = npc"
  by (simp add: stored_npc_def)

lemma stored_npc_new:
  "npcs st (s_name a) = None \<Longrightarrow> stored_npc st a = from_schema a"
  by (simp add: stored_npc_def)

lemma normalised_iris: "normalised_outcome iris_resolution = ''Success''"
  by (simp add: normalised_outcome_cases iris_resolution_def lower_strip_Success)

text \<open>
  C9. When the resolution names an NPC that the state already holds, the stored NPC keeps
  its name, description and personality, and the clamped deltas are applied to its stored
  resistance and relationship; the other fields of \<open>active_npc\<close> are ignored, since
  any \<open>active_npc\<close> of the same name gives the same result. A new name is inserted with
  the supplied fields, which \<open>apply_resolution\<close> then adjusts by the clamped deltas;
  \<open>ensure_npc\<close> on a payload without resistance or relationship inserts 5 and 0. The
  NPCs under other names are unchanged.
\<close>

theorem apply_resolution_existing_and_new_npc:
  "let d = normalize_deltas (normalised_outcome r) (npc_resistance_change r)
             (npc_relationship_change r);
       key = s_name (active_npc r)
   in (\<forall>npc. npcs st key = Some npc \<longrightarrow>
         (\<exists>st' rec npc'.
            apply_resolution st r pm = Inr (st', rec, npc') \<and>
            npcs st' key = Some npc' \<and>
            name npc' = name npc \<and>
            description npc' = description npc \<and>
            personality npc' = personality npc \<and>
            resistance npc' = max 0 (resistance npc + fst d) \<and>
            relationship npc' = relationship npc + snd d) \<and>
         (\<forall>a. s_name a = key \<longrightarrow>
            apply_resolution st (r \<lparr> active_npc := a \<rparr>) pm = apply_resolution st r pm)) \<and>
      (npcs st key = None \<longrightarrow>
         (\<exists>st' rec npc'.
            apply_resolution st r pm = Inr (st', rec, npc') \<and>
            npcs st' key = Some npc' \<and>
            name npc' = key \<and>
            description npc' = s_description (active_npc r) \<and>
            personality npc' = s_personality (active_npc r) \<and>
            resistance npc' = max 0 (s_resistance (active_npc r) + fst d) \<and>
            relationship npc' = s_relationship (active_npc r) + snd d)) \<and>
      (\<forall>nm p. p_name p = Some nm \<and> npcs st nm = None \<longrightarrow>
         (\<exists>st1 npc. ensure_npc st p = Inr (st1, npc) \<and>
            npcs st1 = (npcs st)(nm \<mapsto> npc) \<and>
            name npc = nm \<and>
            description npc = (case p_description p of None \<Rightarrow> [] | Some v \<Rightarrow> v) \<and>
            personality npc = (case p_personality p of None \<Rightarrow> [] | Some v \<Rightarrow> v) \<and>
            resistance npc = (case p_resistance p of None \<Rightarrow> 5 | Some v \<Rightarrow> v) \<and>
            relationship npc = (case p_relationship p of None \<Rightarrow> 0 | Some v \<Rightarrow> v))) \<and>
      (\<exists>st' rec npc'. apply_resolution st r pm = Inr (st', rec, npc') \<and>
          (\<forall>nm. nm \<noteq> key \<longrightarrow> npcs st' nm = npcs st nm))"
proof -
  define d where "d = normalize_deltas (normalised_outcome r) (npc_resistance_change r)
    (npc_relationship_change r)"
  define key where "key = s_name (active_npc r)"
  have existing: "\<exists>st' rec npc'.
            apply_resolution st r pm = Inr (st', rec, npc') \<and>
            npcs st' key = Some npc' \<and>
            name npc' = name npc \<and>
            description npc' = description npc \<and>
            personality npc' = personality npc \<and>
            resistance npc' = max 0 (resistance npc + fst d) \<and>
            relationship npc' = relationship npc + snd d"
    if "npcs st key = Some npc" for npc
    using that unfolding d_def key_def
    by (simp add: apply_resolution_unfold Let_def stored_npc_existing adjust_def)
  have ignored: "apply_resolution st (r \<lparr> active_npc := a \<rparr>) pm = apply_resolution st r pm"
    if "npcs st key = Some npc" and "s_name a = key" for npc a
    using that unfolding key_def
    by (simp add: apply_resolution_unfold Let_def stored_npc_def normalised_outcome_active_npc)
  have new: "\<exists>st' rec npc'.
            apply_resolution st r pm = Inr (st', rec, npc') \<and>
            npcs st' key = Some npc' \<and>
            name npc' = key \<and>
            description npc' = s_description (active_npc r) \<and>
            personality npc' = s_personality (active_npc r) \<and>
            resistance npc' = max 0 (s_resistance (active_npc r) + fst d) \<and>
            relationship npc' = s_relationship (active_npc r) + snd d"
    if "npcs st key = None"
    using that unfolding d_def key_def
    by (simp add: apply_resolution_unfold Let_def stored_npc_new adjust_def from_schema_def)
  have ens: "\<exists>st1 npc. ensure_npc st p = Inr (st1, npc) \<and>
            npcs st1 = (npcs st)(nm \<mapsto> npc) \<and>
            name npc = nm \<and>
            description npc = (case p_description p of None \<Rightarrow> [] | Some v \<Rightarrow> v) \<and>
            personality npc = (case p_personality p of None \<Rightarrow> [] | Some v \<Rightarrow> v) \<and>
            resistance npc = (case p_resistance p of None \<Rightarrow> 5 | Some v \<Rightarrow> v) \<and>
            relationship npc = (case p_relationship p of None \<Rightarrow> 0 | Some v \<Rightarrow> v)"
    if "p_name p = Some nm" and "npcs st nm = None" for nm p
    using that by (simp add: ensure_npc_def Let_def)
  have frame: "\<exists>st' rec npc'. apply_resolution st r pm = Inr (st', rec, npc') \<and>
          (\<forall>nm. nm \<noteq> key \<longrightarrow> npcs st' nm = npcs st nm)"
    unfolding key_def by (simp add: apply_resolution_unfold Let_def)
  from existing ignored new ens frame show ?thesis
    unfolding d_def [symmetric] key_def [symmetric] Let_def by blast
qed

theorem apply_resolution_existing_and_new_npc_witness:
  "npcs test_state ''Alex'' = Some (from_schema alex_schema) \<and>
   (\<exists>st' rec npc'.
      apply_resolution test_state conflicting_resolution ''Hello'' = Inr (st', rec, npc') \<and>
      npcs st' ''Alex'' = Some npc' \<and> personality npc' = ''Stoic'' \<and>
      resistance npc' = 3 \<and> relationship npc' = 2) \<and>
   apply_resolution test_state
     (conflicting_resolution \<lparr> active_npc := alex_schema \<lparr> s_resistance := 99, s_relationship := - 7 \<rparr> \<rparr>)
     ''Hello'' = apply_resolution test_state conflicting_resolution ''Hello'' \<and>
   npcs test_state ''Iris'' = None \<and>
   (\<exists>st' rec npc'.
      apply_resolution test_state iris_resolution ''Hello'' = Inr (st', rec, npc') \<and>
      npcs st' ''Iris'' = Some npc' \<and> personality npc' = ''Calm'' \<and>
      resistance npc' = 2 \<and> relationship npc' = 2) \<and>
   (\<exists>st1 npc. ensure_npc test_state (name_only ''Iris'') = Inr (st1, npc) \<and>
      npcs st1 ''Iris'' = Some npc \<and> resistance npc = 5 \<and> relationship npc = 0)"
proof -
  have alex: "npcs test_state (s_name (active_npc conflicting_resolution)) = Some (from_schema alex_schema)"
    by (simp add: test_state_npcs conflicting_resolution_def alex_schema_def)
  have iris: "npcs test_state (s_name (active_npc iris_resolution)) = None"
    by (simp add: test_state_npcs iris_resolution_def iris_schema_def)
  have d1: "normalize_deltas (normalised_outcome conflicting_resolution)
      (npc_resistance_change conflicting_resolution) (npc_relationship_change conflicting_resolution) = (- 1, 1)"
    unfolding normalised_conflicting normalize_deltas_Success
    by (simp add: conflicting_resolution_def)
  have d2: "normalize_deltas (normalised_outcome iris_resolution)
      (npc_resistance_change iris_resolution) (npc_relationship_change iris_resolution) = (- 1, 1)"
    unfolding normalised_iris normalize_deltas_Success
    by (simp add: iris_resolution_def)
  have k1: "s_name (active_npc conflicting_resolution) = ''Alex''"
    by (simp add: conflicting_resolution_def alex_schema_def)
  have k2: "s_name (active_npc iris_resolution) = ''Iris''"
    by (simp add: iris_resolution_def iris_schema_def)
  note t1 = apply_resolution_existing_and_new_npc [of conflicting_resolution test_state "''Hello''",
      unfolded Let_def d1 k1]
  note t2 = apply_resolution_existing_and_new_npc [of iris_resolution test_state "''Hello''",
      unfolded Let_def d2 k2]
  have alex': "npcs test_state ''Alex'' = Some (from_schema alex_schema)"
    using alex by (simp add: k1)
  have iris': "npcs test_state ''Iris'' = None"
    using iris by (simp add: k2)
  note x1 = t1 [THEN conjunct1, THEN spec, THEN mp, OF alex']
  from x1 [THEN conjunct1] obtain st' rec npc' where
    "apply_resolution test_state conflicting_resolution ''Hello'' = Inr (st', rec, npc')"
    "npcs st' ''Alex'' = Some npc'" "personality npc' = personality (from_schema alex_schema)"
    "resistance npc' = max 0 (resistance (from_schema alex_schema) + fst (- 1 :: int, 1 :: int))"
    "relationship npc' = relationship (from_schema alex_schema) + snd (- 1 :: int, 1 :: int)"
    by blast
  then have e1: "\<exists>st' rec npc'.
      apply_resolution test_state conflicting_resolution ''Hello'' = Inr (st', rec, npc') \<and>
      npcs st' ''Alex'' = Some npc' \<and> personality npc' = ''Stoic'' \<and>
      resistance npc' = 3 \<and> relationship npc' = 2"
    by (simp add: from_schema_def alex_schema_def)
  from x1 [THEN conjunct2, THEN spec,
      of "alex_schema \<lparr> s_resistance := 99, s_relationship := - 7 \<rparr>"]
  have e2: "apply_resolution test_state
     (conflicting_resolution \<lparr> active_npc := alex_schema \<lparr> s_resistance := 99, s_relationship := - 7 \<rparr> \<rparr>)
     ''Hello'' = apply_resolution test_state conflicting_resolution ''Hello''"
    by (simp add: alex_schema_def)
  from t2 [THEN conjunct2, THEN conjunct1, THEN mp, OF iris'] obtain st2 rec2 npc2 where
    "apply_resolution test_state iris_resolution ''Hello'' = Inr (st2, rec2, npc2)"
    "npcs st2 ''Iris'' = Some npc2" "personality npc2 = s_personality (active_npc iris_resolution)"
    "resistance npc2 = max 0 (s_resistance (active_npc iris_resolution) + fst (- 1 :: int, 1 :: int))"
    "relationship npc2 = s_relationship (active_npc iris_resolution) + snd (- 1 :: int, 1 :: int)"
    by blast
  then have e3: "\<exists>st' rec npc'.
      apply_resolution test_state iris_resolution ''Hello'' = Inr (st', rec, npc') \<and>
      npcs st' ''Iris'' = Some npc' \<and> personality npc' = ''Calm'' \<and>
      resistance npc' = 2 \<and> relationship npc' = 2"
    by (simp add: iris_resolution_def iris_schema_def)
  have "p_name (name_only ''Iris'') = Some ''Iris'' \<and> npcs test_state ''Iris'' = None"
    using iris' by (simp add: name_only_def)
  from t2 [THEN conjunct2, THEN conjunct2, THEN conjunct1, THEN spec, THEN spec, THEN mp, OF this]
  obtain st3 npc3 where
    "ensure_npc test_state (name_only ''Iris'') = Inr (st3, npc3)"
    "npcs st3 = (npcs test_state)(''Iris'' \<mapsto> npc3)"
    "resistance npc3 = (case p_resistance (name_only ''Iris'') of None \<Rightarrow> 5 | Some v \<Rightarrow> v)"
    "relationship npc3 = (case p_relationship (name_only ''Iris'') of None \<Rightarrow> 0 | Some v \<Rightarrow> v)"
    by blast
  then have e4: "\<exists>st1 npc. ensure_npc test_state (name_only ''Iris'') = Inr (st1, npc) \<and>
      npcs st1 ''Iris'' = Some npc \<and> resistance npc = 5 \<and> relationship npc = 0"
    by (simp add: name_only_def)
  from alex' iris' e1 e2 e3 e4 show ?thesis by simp
qed

section \<open>Schema validation\<close>

lemma validate_resistance: "NPCSchema_validate p = Inr s \<Longrightarrow> 0 \<le> s_resistance s"
  by (auto simp add: NPCSchema_validate_def Let_def split: option.splits if_splits)

lemma validate_npcs_resistance:
  "validate_npcs ps = Inr ss \<Longrightarrow> list_all (\<lambda>s. 0 \<le> s_resistance s) ss"
proof (induction ps arbitrary: ss)
  case Nil
  then show ?case by simp
next
  case (Cons p ps)
  then show ?case
    by (auto split: sum.splits dest: validate_resistance)
qed

lemma npcs_of_schemas_ok:
  "list_all (\<lambda>s. 0 \<le> s_resistance s) ss \<Longrightarrow>
   (\<forall>nm npc. m nm = Some npc \<longrightarrow> 0 \<le> resistance npc) \<Longrightarrow>
   npcs_of_schemas ss m nm = Some npc \<Longrightarrow> 0 \<le> resistance npc"
proof (induction ss arbitrary: m)
  case Nil
  then show ?case by simp
next
  case (Cons s ss)
  from Cons.prems(1) have l: "list_all (\<lambda>s. 0 \<le> s_resistance s) ss"
    and s0: "0 \<le> s_resistance s" by simp_all
  have m': "\<forall>nm npc. (m(s_name s \<mapsto> from_schema s)) nm = Some npc \<longrightarrow> 0 \<le> resistance npc"
    using Cons.prems(2) s0 by (auto simp add: from_schema_def)
  from Cons.prems(3) have "npcs_of_schemas ss (m(s_name s \<mapsto> from_schema s)) nm = Some npc"
    by simp
  from Cons.IH [OF l m' this] show ?case .
qed

lemma from_world_schema_ok:
  "list_all (\<lambda>s. 0 \<le> s_resistance s) (w_npcs w) \<Longrightarrow> resistance_ok (from_world_schema setting w)"
  unfolding resistance_ok_def from_world_schema_def
  using npcs_of_schemas_ok [of "w_npcs w" Map.empty] by auto

lemma world_validate_npcs:
  "WorldSetupSchema_validate wp = Inr w \<Longrightarrow> list_all (\<lambda>s. 0 \<le> s_resistance s) (w_npcs w)"
  by (auto simp add: WorldSetupSchema_validate_def split: option.splits sum.splits
      dest: validate_npcs_resistance)

text \<open>
  C7. Validation of an NPC payload accepts only a resistance of at least 0 (the default 5
  when the payload has none) and rejects a negative one with a validation error, while
  any integer is accepted as relationship. Hence the NPC built by \<open>from_schema\<close> from a
  validated schema has a non-negative resistance, and so has every NPC of the state built
  from a validated world payload.
\<close>

theorem schema_resistance_non_negative:
  "(\<forall>s. NPCSchema_validate p = Inr s \<longrightarrow>
      0 \<le> s_resistance s \<and> 0 \<le> resistance (from_schema s) \<and>
      (\<forall>v. NPCSchema_validate (p \<lparr> p_relationship := Some v \<rparr>) = Inr (s \<lparr> s_relationship := v \<rparr>))) \<and>
   (\<forall>v. p_resistance p = Some v \<and> v < 0 \<longrightarrow>
      (\<exists>msg. NPCSchema_validate p = Inl (ValidationError msg))) \<and>
   (\<forall>w. WorldSetupSchema_validate wp = Inr w \<longrightarrow> resistance_ok (from_world_schema setting w))"
proof -
  have a: "0 \<le> s_resistance s \<and> 0 \<le> resistance (from_schema s) \<and>
      (\<forall>v. NPCSchema_validate (p \<lparr> p_relationship := Some v \<rparr>) = Inr (s \<lparr> s_relationship := v \<rparr>))"
    if "NPCSchema_validate p = Inr s" for s
    using that
    by (auto simp add: NPCSchema_validate_def Let_def from_schema_def split: option.splits if_splits)
  have b: "\<exists>msg. NPCSchema_validate p = Inl (ValidationError msg)"
    if "p_resistance p = Some v \<and> v < 0" for v
    using that by (simp add: NPCSchema_validate_def Let_def split: option.splits)
  have c: "resistance_ok (from_world_schema setting w)" if "WorldSetupSchema_validate wp = Inr w" for w
    using that by (simp add: world_validate_npcs from_world_schema_ok)
  from a b c show ?thesis by blast
qed

lemma validate_alex: "NPCSchema_validate alex_payload = Inr alex_schema"
  by (simp add: NPCSchema_validate_def alex_payload_def alex_schema_def)

lemma validate_test_world: "WorldSetupSchema_validate test_world_payload = Inr test_world"
  by (simp add: WorldSetupSchema_validate_def test_world_payload_def test_world_def validate_alex)

theorem schema_resistance_non_negative_witness:
  "NPCSchema_validate alex_payload = Inr alex_schema \<and>
   s_resistance alex_schema = 4 \<and> resistance (from_schema alex_schema) = 4 \<and>
   NPCSchema_validate (alex_payload \<lparr> p_relationship := Some (- 100) \<rparr>) =
     Inr (alex_schema \<lparr> s_relationship := - 100 \<rparr>) \<and>
   p_resistance (alex_payload \<lparr> p_resistance := Some (- 1) \<rparr>) = Some (- 1) \<and>
   (\<exists>msg. NPCSchema_validate (alex_payload \<lparr> p_resistance := Some (- 1) \<rparr>) = Inl (ValidationError msg)) \<and>
   WorldSetupSchema_validate test_world_payload = Inr test_world \<and>
   resistance_ok (from_world_schema ''Test World'' test_world)"
proof -
  note t1 = schema_resistance_non_negative [of alex_payload test_world_payload "''Test World''"]
  note t2 = schema_resistance_non_negative
    [of "alex_payload \<lparr> p_resistance := Some (- 1) \<rparr>" test_world_payload "''Test World''"]
  from t1 [THEN conjunct1, THEN spec, THEN mp, OF validate_alex]
  have e1: "NPCSchema_validate (alex_payload \<lparr> p_relationship := Some (- 100) \<rparr>) =
     Inr (alex_schema \<lparr> s_relationship := - 100 \<rparr>)"
    by blast
  have h: "p_resistance (alex_payload \<lparr> p_resistance := Some (- 1) \<rparr>) = Some (- 1) \<and> (- 1 :: int) < 0"
    by simp
  note e2 = t2 [THEN conjunct2, THEN conjunct1, THEN spec, THEN mp, OF h]
  note e3 = t1 [THEN conjunct2, THEN conjunct2, THEN spec, THEN mp, OF validate_test_world]
  from e1 e2 e3 validate_alex validate_test_world show ?thesis
    by (simp add: alex_schema_def from_schema_def)
qed

section \<open>The turn history\<close>

lemma apply_resolution_history:
  "\<exists>st' rec npc'. apply_resolution st r pm = Inr (st', rec, npc') \<and>
     turn_history st' = turn_history st @ [rec] \<and>
     turn_number rec = int (length (turn_history st)) + 1 \<and>
     t_outcome_type rec = normalised_outcome r \<and>
     total_successes st' = total_successes st + (if normalised_outcome r = ''Success'' then 1 else 0) \<and>
     total_failures st' = total_failures st + (if normalised_outcome r = ''Failure'' then 1 else 0)"
  by (simp add: apply_resolution_unfold Let_def)

lemma play_turns_effect:
  "\<exists>st' new. play_turns st turns = Inr st' \<and>
     turn_history st' = turn_history st @ new \<and>
     length new = length turns \<and>
     map turn_number new =
       map int [length (turn_history st) + 1 ..< length (turn_history st) + 1 + length turns] \<and>
     total_successes st' = total_successes st + int (length (filter is_success new)) \<and>
     total_failures st' = total_failures st + int (length (filter is_failure new))"
proof (induction turns arbitrary: st)
  case Nil
  then show ?case by simp
next
  case (Cons t turns)
  obtain r pm where t: "t = (r, pm)" by (cases t)
  from apply_resolution_history [of st r pm] obtain st1 rec npc1 where
    app: "apply_resolution st r pm = Inr (st1, rec, npc1)"
    and h1: "turn_history st1 = turn_history st @ [rec]"
    and n1: "turn_number rec = int (length (turn_history st)) + 1"
    and o1: "t_outcome_type rec = normalised_outcome r"
    and s1: "total_successes st1 = total_successes st + (if normalised_outcome r = ''Success'' then 1 else 0)"
    and f1: "total_failures st1 = total_failures st + (if normalised_outcome r = ''Failure'' then 1 else 0)"
    by blast
  from Cons.IH [of st1] obtain st' new where
    p: "play_turns st1 turns = Inr st'"
    and h: "turn_history st' = turn_history st1 @ new"
    and l: "length new = length turns"
    and n: "map turn_number new =
       map int [length (turn_history st1) + 1 ..< length (turn_history st1) + 1 + length turns]"
    and s: "total_successes st' = total_successes st1 + int (length (filter is_success new))"
    and f: "total_failures st' = total_failures st1 + int (length (filter is_failure new))"
    by blast
  have p': "play_turns st (t # turns) = Inr st'"
    using app p by (simp add: t)
  have h': "turn_history st' = turn_history st @ (rec # new)"
    using h h1 by simp
  have n': "map turn_number (rec # new) =
       map int [length (turn_history st) + 1 ..< length (turn_history st) + 1 + length (t # turns)]"
  proof -
    have "[length (turn_history st) + 1 ..< length (turn_history st) + 1 + length (t # turns)] =
        (length (turn_history st) + 1) #
          [length (turn_history st1) + 1 ..< length (turn_history st1) + 1 + length turns]"
      using h1 by (simp add: upt_conv_Cons del: upt_Suc)
    with n n1 show ?thesis by (simp del: upt_Suc)
  qed
  have s': "total_successes st' = total_successes st + int (length (filter is_success (rec # new)))"
    using s s1 o1 by (simp add: is_success_def)
  have f': "total_failures st' = total_failures st + int (length (filter is_failure (rec # new)))"
    using f f1 o1 by (simp add: is_failure_def)
  from p' h' l n' s' f' show ?case
    by (intro exI [of _ st'] exI [of _ "rec # new"]) simp
qed

lemma filter_disjoint_length:
  "length (filter is_success xs) + length (filter is_failure xs) \<le> length xs"
  by (induction xs) (auto simp add: is_success_def is_failure_def)

lemma apply_resolution_record:
  "let d = normalize_deltas (normalised_outcome r) (npc_resistance_change r)
             (npc_relationship_change r)
   in \<exists>st1 npc0 st' rec npc'.
     ensure_npc st (model_dump (active_npc r)) = Inr (st1, npc0) \<and>
     apply_resolution st r pm = Inr (st', rec, npc') \<and>
     turn_history st' = turn_history st @ [rec] \<and>
     turn_number rec = int (length (turn_history st)) + 1 \<and>
     npc_name rec = name npc' \<and>
     dilemma rec = current_problem st \<and>
     player_message rec = pm \<and>
     t_npc_response rec = npc_response r \<and>
     t_outcome_type rec = normalised_outcome r \<and>
     t_outcome_summary rec = outcome_summary r \<and>
     resistance_shift rec = resistance npc' - resistance npc0 \<and>
     resistance_shift rec = max 0 (resistance npc0 + fst d) - resistance npc0 \<and>
     relationship_shift rec = relationship npc' - relationship npc0 \<and>
     relationship_shift rec = snd d \<and>
     t_branches rec = take 3 (branches r) \<and>
     length (t_branches rec) \<le> 3"
proof -
  have ens: "ensure_npc st (model_dump (active_npc r)) =
      Inr (case npcs st (s_name (active_npc r)) of Some n \<Rightarrow> st
             | None \<Rightarrow> st \<lparr> npcs := (npcs st)(s_name (active_npc r) \<mapsto> from_schema (active_npc r)) \<rparr>,
           stored_npc st (active_npc r))"
    by (simp add: ensure_npc_model_dump stored_npc_def split: option.splits)
  show ?thesis
    unfolding Let_def
    apply (rule exI [of _ "case npcs st (s_name (active_npc r)) of Some n \<Rightarrow> st
             | None \<Rightarrow> st \<lparr> npcs := (npcs st)(s_name (active_npc r) \<mapsto> from_schema (active_npc r)) \<rparr>"])
    apply (rule exI [of _ "stored_npc st (active_npc r)"])
    apply (simp add: ens apply_resolution_unfold Let_def adjust_def)
    done
qed

text \<open>
  C6. \<open>apply_resolution\<close> never raises and appends exactly one record to the history. The
  record holds the next turn number, the NPC's name, the dilemma (the current problem before
  the turn), the player's message, the model's response, the normalised outcome, the outcome
  summary, the shifts actually applied (the differences of the NPC's counters after and
  before \<open>adjust\<close>) and the first three branches at most. Over a game the records
  already in the history are kept as they are, the new ones follow them, and their turn
  numbers continue the count; from a fresh state the n-th record has turn number n.
\<close>

theorem turn_record_appended:
  "(let d = normalize_deltas (normalised_outcome r) (npc_resistance_change r)
             (npc_relationship_change r)
    in \<exists>st1 npc0 st' rec npc'.
     ensure_npc st (model_dump (active_npc r)) = Inr (st1, npc0) \<and>
     apply_resolution st r pm = Inr (st', rec, npc') \<and>
     turn_history st' = turn_history st @ [rec] \<and>
     turn_number rec = int (length (turn_history st)) + 1 \<and>
     npc_name rec = name npc' \<and>
     dilemma rec = current_problem st \<and>
     player_message rec = pm \<and>
     t_npc_response rec = npc_response r \<and>
     t_outcome_type rec = normalised_outcome r \<and>
     t_outcome_summary rec = outcome_summary r \<and>
     resistance_shift rec = resistance npc' - resistance npc0 \<and>
     resistance_shift rec = max 0 (resistance npc0 + fst d) - resistance npc0 \<and>
     relationship_shift rec = relationship npc' - relationship npc0 \<and>
     relationship_shift rec = snd d \<and>
     t_branches rec = take 3 (branches r) \<and>
     length (t_branches rec) \<le> 3) \<and>
   (\<exists>st' new. play_turns st turns = Inr st' \<and>
      turn_history st' = turn_history st @ new \<and>
      length new = length turns \<and>
      map turn_number new =
        map int [length (turn_history st) + 1 ..< length (turn_history st) + 1 + length turns]) \<and>
   (\<exists>st'. play_turns (from_world_schema setting w) turns = Inr st' \<and>
      length (turn_history st') = length turns \<and>
      map turn_number (turn_history st') = map int [1 ..< length turns + 1])"
proof -
  from play_turns_effect [of st turns]
  have b: "\<exists>st' new. play_turns st turns = Inr st' \<and>
      turn_history st' = turn_history st @ new \<and>
      length new = length turns \<and>
      map turn_number new =
        map int [length (turn_history st) + 1 ..< length (turn_history st) + 1 + length turns]"
    by blast
  have h0: "turn_history (from_world_schema setting w) = []"
    by (simp add: from_world_schema_def)
  from play_turns_effect [of "from_world_schema setting w" turns]
  have c: "\<exists>st'. play_turns (from_world_schema setting w) turns = Inr st' \<and>
      length (turn_history st') = length turns \<and>
      map turn_number (turn_history st') = map int [1 ..< length turns + 1]"
    unfolding h0 by (auto simp del: upt_Suc)
  from apply_resolution_record [of r st pm] b c show ?thesis
    by (simp only: simp_thms)
qed

text \<open>
  C10. \<open>normalised_outcome\<close> returns Success, Failure or Alternative for every string:
  Success when the trimmed, lower-cased input is success, Failure when it is failure, and
  Alternative otherwise. \<open>record_turn\<close> adds one to \<open>total_successes\<close> or to
  \<open>total_failures\<close> only for an outcome that is success or failure in lower case, so
  \<open>apply_resolution\<close> counts exactly the Success and the Failure records; over a game
  the two totals grow by the numbers of such records, and from a fresh state their sum
  never exceeds the length of the history.
\<close>

theorem outcome_categories_and_totals:
  "normalised_outcome r \<in> {''Success'', ''Failure'', ''Alternative''} \<and>
   normalised_outcome r =
     (if lower (strip (outcome_type r)) = ''success'' then ''Success''
      else if lower (strip (outcome_type r)) = ''failure'' then ''Failure''
      else ''Alternative'') \<and>
   (\<exists>st1 rec. record_turn st nm dl pm resp ot os rs ls bs = (st1, rec) \<and>
      turn_history st1 = turn_history st @ [rec] \<and>
      total_successes st1 = total_successes st + (if lower ot = ''success'' then 1 else 0) \<and>
      total_failures st1 = total_failures st + (if lower ot = ''failure'' then 1 else 0)) \<and>
   (\<exists>st' rec npc'. apply_resolution st r pm = Inr (st', rec, npc') \<and>
      total_successes st' =
        total_successes st + (if normalised_outcome r = ''Success'' then 1 else 0) \<and>
      total_failures st' =
        total_failures st + (if normalised_outcome r = ''Failure'' then 1 else 0)) \<and>
   (\<exists>st' new. play_turns st turns = Inr st' \<and>
      turn_history st' = turn_history st @ new \<and>
      total_successes st' = total_successes st + int (length (filter is_success new)) \<and>
      total_failures st' = total_failures st + int (length (filter is_failure new)) \<and>
      total_successes st' + total_failures st' - (total_successes st + total_failures st)
        \<le> int (length new)) \<and>
   (\<exists>st'. play_turns (from_world_schema setting w) turns = Inr st' \<and>
      total_successes st' = int (length (filter is_success (turn_history st'))) \<and>
      total_failures st' = int (length (filter is_failure (turn_history st'))) \<and>
      total_successes st' + total_failures st' \<le> int (length (turn_history st')))"
proof -
  have a: "normalised_outcome r \<in> {''Success'', ''Failure'', ''Alternative''}"
    using normalised_outcome_range [of r] by blast
  have c: "\<exists>st1 rec. record_turn st nm dl pm resp ot os rs ls bs = (st1, rec) \<and>
      turn_history st1 = turn_history st @ [rec] \<and>
      total_successes st1 = total_successes st + (if lower ot = ''success'' then 1 else 0) \<and>
      total_failures st1 = total_failures st + (if lower ot = ''failure'' then 1 else 0)"
    by (simp add: record_turn_def Let_def)
  have d: "\<exists>st' rec npc'. apply_resolution st r pm = Inr (st', rec, npc') \<and>
      total_successes st' =
        total_successes st + (if normalised_outcome r = ''Success'' then 1 else 0) \<and>
      total_failures st' =
        total_failures st + (if normalised_outcome r = ''Failure'' then 1 else 0)"
    using apply_resolution_history [of st r pm] by blast
  from play_turns_effect [of st turns] obtain st' new where
    p: "play_turns st turns = Inr st'" "turn_history st' = turn_history st @ new"
      "total_successes st' = total_successes st + int (length (filter is_success new))"
      "total_failures st' = total_failures st + int (length (filter is_failure new))"
    by blast
  have "total_successes st' + total_failures st' - (total_successes st + total_failures st)
        \<le> int (length new)"
    using p(3,4) filter_disjoint_length [of new] by simp
  with p have e: "\<exists>st' new. play_turns st turns = Inr st' \<and>
      turn_history st' = turn_history st @ new \<and>
      total_successes st' = total_successes st + int (length (filter is_success new)) \<and>
      total_failures st' = total_failures st + int (length (filter is_failure new)) \<and>
      total_successes st' + total_failures st' - (total_successes st + total_failures st)
        \<le> int (length new)"
    by blast
  have h0: "turn_history (from_world_schema setting w) = []"
    "total_successes (from_world_schema setting w) = 0"
    "total_failures (from_world_schema setting w) = 0"
    by (simp_all add: from_world_schema_def)
  from play_turns_effect [of "from_world_schema setting w" turns] obtain st2 new2 where
    q: "play_turns (from_world_schema setting w) turns = Inr st2" "turn_history st2 = new2"
      "total_successes st2 = int (length (filter is_success new2))"
      "total_failures st2 = int (length (filter is_failure new2))"
    unfolding h0 by auto
  have "total_successes st2 + total_failures st2 \<le> int (length (turn_history st2))"
    using q filter_disjoint_length [of new2] by simp
  with q have f: "\<exists>st'. play_turns (from_world_schema setting w) turns = Inr st' \<and>
      total_successes st' = int (length (filter is_success (turn_history st'))) \<and>
      total_failures st' = int (length (filter is_failure (turn_history st'))) \<and>
      total_successes st' + total_failures st' \<le> int (length (turn_history st'))"
    by blast
  from a normalised_outcome_cases [of r] c d e f show ?thesis
    by (simp only: simp_thms)
qed

section \<open>The controller loop\<close>

lemma handle_command_other:
  "lower pm \<notin> {''log'', ''quit'', ''retry''} \<Longrightarrow> handle_command pm = (False, None)"
  by (simp add: handle_command_def Let_def)

lemma handle_command_retry:
  "lower pm = ''retry'' \<Longrightarrow> handle_command pm = (True, Some ''retry'')"
  by (simp add: handle_command_def Let_def)

lemma lower_nonempty: "lower pm = ''retry'' \<Longrightarrow> pm \<noteq> []"
  by (auto simp add: lower_def)

lemma play_turn_only_state:
  "c_state c' = c_state c \<Longrightarrow> play_turn plan c pm = Inl exc \<Longrightarrow> play_turn plan c' pm = Inl exc"
  by (auto simp add: play_turn_def split: option.splits sum.splits)

lemma play_turn_failed_cases:
  "play_turn plan c pm = Inl exc \<longleftrightarrow>
     (case c_state c of
        None \<Rightarrow> exc = RuntimeError ''Game state is not initialized. Call _setup_world first.''
      | Some st \<Rightarrow> plan st pm = Inl exc)"
  by (auto simp add: play_turn_def apply_resolution_unfold Let_def split: option.splits sum.splits)

lemma step_failed_turn:
  assumes "pm \<noteq> []" and "lower pm \<notin> {''log'', ''quit'', ''retry''}"
    and "play_turn plan c pm = Inl exc"
  shows "loop_step plan path c (Some pm, False) =
     (c \<lparr> retry_message := Some pm,
          shown := prelude c @ [DisplayError (''Encounter failed due to an error: '' @ exc_text exc)] \<rparr>,
      True)"
proof -
  note pt = play_turn_only_state [OF _ assms(3)]
  show ?thesis
    using assms(1)
    by (simp add: loop_step_def Let_def handle_command_other [OF assms(2)] display_def prelude_def pt)
qed

lemma step_failed_retry:
  assumes "lower pm = ''retry''" and "retry_message c = Some m" and "m \<noteq> []"
    and "play_turn plan c m = Inl exc"
  shows "loop_step plan path c (Some pm, False) =
     (c \<lparr> shown := prelude c @ [DisplayError (''Retry failed: '' @ exc_text exc)] \<rparr>, True)"
proof -
  note pt = play_turn_only_state [OF _ assms(4)]
  show ?thesis
    using assms(2,3) lower_nonempty [OF assms(1)]
    by (simp add: loop_step_def Let_def handle_command_retry [OF assms(1)] display_def prelude_def
        truthy_def retry_last_turn_def pt)
qed

lemma step_retry_nothing_stored:
  assumes "lower pm = ''retry''" and "\<not> truthy (retry_message c)"
  shows "loop_step plan path c (Some pm, False) =
     (c \<lparr> shown := shown c @ [StartTurn, DisplayError ''No turn available to retry.''] \<rparr>, True)"
  using assms(2) lower_nonempty [OF assms(1)]
  by (simp add: loop_step_def Let_def handle_command_retry [OF assms(1)] display_def)

lemma step_retry_succeeds:
  assumes "lower pm = ''retry''" and "retry_message c = Some m" and "m \<noteq> []"
    and "c_state c = Some st" and "plan st m = Inr r"
    and "apply_resolution st r m = Inr (st', rec, npc)"
  shows "c_state (fst (loop_step plan path c (Some pm, False))) = Some st' \<and>
         retry_message (fst (loop_step plan path c (Some pm, False))) = None"
  using assms(2-6) lower_nonempty [OF assms(1)]
  by (simp add: loop_step_def Let_def handle_command_retry [OF assms(1)] display_def
        truthy_def retry_last_turn_def play_turn_def show_result_def)

text \<open>
  C5. A pass of the controller's loop whose played turn fails shows one error message,
  leaves the game state as it was and stores the player's message in \<open>retry_message\<close>;
  a turn fails only when \<open>plan_turn\<close> raises (or no state is set up). A retry that fails
  shows an error and keeps both the state and the stored message; a retry with a stored
  message plays the turn with that message and clears it. A retry with nothing stored
  shows an error and plays no turn, whatever the client would return.
\<close>

theorem failed_turn_keeps_state:
  "(pm \<noteq> [] \<and> lower pm \<notin> {''log'', ''quit'', ''retry''} \<and> play_turn plan c pm = Inl exc \<longrightarrow>
      loop_step plan path c (Some pm, False) =
        (c \<lparr> retry_message := Some pm,
             shown := prelude c @
               [DisplayError (''Encounter failed due to an error: '' @ exc_text exc)] \<rparr>, True)) \<and>
   (lower pm = ''retry'' \<and> retry_message c = Some m \<and> m \<noteq> [] \<and> play_turn plan c m = Inl exc \<longrightarrow>
      loop_step plan path c (Some pm, False) =
        (c \<lparr> shown := prelude c @ [DisplayError (''Retry failed: '' @ exc_text exc)] \<rparr>, True)) \<and>
   (lower pm = ''retry'' \<and> \<not> truthy (retry_message c) \<longrightarrow>
      loop_step plan path c (Some pm, False) =
        (c \<lparr> shown := shown c @ [StartTurn, DisplayError ''No turn available to retry.''] \<rparr>,
         True)) \<and>
   (lower pm = ''retry'' \<and> retry_message c = Some m \<and> m \<noteq> [] \<and> c_state c = Some st \<and>
    plan st m = Inr r \<longrightarrow>
      (\<exists>st' rec npc. apply_resolution st r m = Inr (st', rec, npc) \<and>
         player_message rec = m \<and>
         c_state (fst (loop_step plan path c (Some pm, False))) = Some st' \<and>
         retry_message (fst (loop_step plan path c (Some pm, False))) = None)) \<and>
   (play_turn plan c pm = Inl exc \<longleftrightarrow>
      (case c_state c of
         None \<Rightarrow> exc = RuntimeError ''Game state is not initialized. Call _setup_world first.''
       | Some st \<Rightarrow> plan st pm = Inl exc))"
proof -
  have d: "\<exists>st' rec npc. apply_resolution st r m = Inr (st', rec, npc) \<and>
         player_message rec = m \<and>
         c_state (fst (loop_step plan path c (Some pm, False))) = Some st' \<and>
         retry_message (fst (loop_step plan path c (Some pm, False))) = None"
    if h: "lower pm = ''retry''" "retry_message c = Some m" "m \<noteq> []" "c_state c = Some st"
      "plan st m = Inr r"
  proof -
    obtain st' rec npc where app: "apply_resolution st r m = Inr (st', rec, npc)"
      and "player_message rec = m"
      by (simp add: apply_resolution_unfold Let_def)
    with step_retry_succeeds [of pm c m st plan r st' rec npc path] h show ?thesis by blast
  qed
  from step_failed_turn [of pm plan c exc path] step_failed_retry [of pm c m plan exc path]
    step_retry_nothing_stored [of pm c plan path] d play_turn_failed_cases [of plan c pm exc]
  show ?thesis by blast
qed

lemma lower_Hello: "lower ''Hello'' = ''hello''"
  by code_simp

lemma lower_retry: "lower ''retry'' = ''retry''"
  by code_simp

theorem failed_turn_keeps_state_witness:
  "loop_step failing_plan ''journal.json'' fresh_controller (Some ''Hello'', False) =
     (failed_once, True) \<and>
   c_state failed_once = c_state fresh_controller \<and>
   retry_message failed_once = Some ''Hello'' \<and>
   loop_step failing_plan ''journal.json'' failed_once (Some ''retry'', False) =
     (failed_once \<lparr> shown := shown failed_once @
        [StartTurn, NotifyRetryAvailable,
         DisplayError ''Retry failed: GPT request failed: timeout''] \<rparr>, True) \<and>
   loop_step fake_plan ''journal.json'' fresh_controller (Some ''retry'', False) =
     (fresh_controller \<lparr> shown := [StartTurn, DisplayError ''No turn available to retry.''] \<rparr>,
      True) \<and>
   (\<exists>st' rec npc. apply_resolution test_state iris_resolution ''Hello'' = Inr (st', rec, npc) \<and>
      player_message rec = ''Hello'' \<and>
      c_state (fst (loop_step fake_plan ''journal.json'' failed_once (Some ''retry'', False))) =
        Some st' \<and>
      retry_message (fst (loop_step fake_plan ''journal.json'' failed_once (Some ''retry'', False))) =
        None)"
proof -
  let ?exc = "RuntimeError ''GPT request failed: timeout''"
  have p1: "play_turn failing_plan fresh_controller ''Hello'' = Inl ?exc"
    by (simp add: play_turn_def fresh_controller_def failing_plan_def)
  have p2: "play_turn failing_plan failed_once ''Hello'' = Inl ?exc"
    by (simp add: play_turn_def failed_once_def fresh_controller_def failing_plan_def)
  have h1: "''Hello'' \<noteq> [] \<and> lower ''Hello'' \<notin> {''log'', ''quit'', ''retry''} \<and>
      play_turn failing_plan fresh_controller ''Hello'' = Inl ?exc"
    using p1 by (simp add: lower_Hello)
  have h2: "lower ''retry'' = ''retry'' \<and> retry_message failed_once = Some ''Hello'' \<and>
      ''Hello'' \<noteq> [] \<and> play_turn failing_plan failed_once ''Hello'' = Inl ?exc"
    using p2 by (simp add: lower_retry failed_once_def)
  have h3: "lower ''retry'' = ''retry'' \<and> \<not> truthy (retry_message fresh_controller)"
    by (simp add: lower_retry truthy_def fresh_controller_def)
  have h4: "lower ''retry'' = ''retry'' \<and> retry_message failed_once = Some ''Hello'' \<and>
      ''Hello'' \<noteq> [] \<and> c_state failed_once = Some test_state \<and>
      fake_plan test_state ''Hello'' = Inr iris_resolution"
    by (simp add: lower_retry failed_once_def fresh_controller_def fake_plan_def)
  note e1 = failed_turn_keeps_state
    [of "''Hello''" failing_plan fresh_controller ?exc "''journal.json''",
      THEN conjunct1, THEN mp, OF h1]
  note e2 = failed_turn_keeps_state
    [of "''retry''" failing_plan failed_once ?exc "''journal.json''" "''Hello''",
      THEN conjunct2, THEN conjunct1, THEN mp, OF h2]
  note e3 = failed_turn_keeps_state
    [of "''retry''" fake_plan fresh_controller _ "''journal.json''",
      THEN conjunct2, THEN conjunct2, THEN conjunct1, THEN mp, OF h3]
  note e4 = failed_turn_keeps_state
    [of "''retry''" fake_plan failed_once _ "''journal.json''" "''Hello''" test_state iris_resolution,
      THEN conjunct2, THEN conjunct2, THEN conjunct2, THEN conjunct1, THEN mp, OF h4]
  have a1: "loop_step failing_plan ''journal.json'' fresh_controller (Some ''Hello'', False) =
     (failed_once, True)"
    using e1 by (simp add: failed_once_def prelude_def fresh_controller_def truthy_def)
  have a2: "loop_step failing_plan ''journal.json'' failed_once (Some ''retry'', False) =
     (failed_once \<lparr> shown := shown failed_once @
        [StartTurn, NotifyRetryAvailable,
         DisplayError ''Retry failed: GPT request failed: timeout''] \<rparr>, True)"
    using e2 by (simp add: failed_once_def prelude_def fresh_controller_def truthy_def)
  have a3: "loop_step fake_plan ''journal.json'' fresh_controller (Some ''retry'', False) =
     (fresh_controller \<lparr> shown := [StartTurn, DisplayError ''No turn available to retry.''] \<rparr>,
      True)"
    using e3 by (simp add: fresh_controller_def)
  from a1 a2 a3 e4 show ?thesis
    by (simp add: failed_once_def)
qed

section \<open>Code fences\<close>

lemma splitlines_from_nonempty: "s \<noteq> [] \<Longrightarrow> splitlines_from cur s \<noteq> []"
  by (induction cur s rule: splitlines_from.induct) auto

lemma strip_code_fences_total: "\<exists>s. strip_code_fences t = Inr s"
proof (cases "startswith t fence \<and> endswith t fence")
  case True
  then have "t \<noteq> []" by (auto simp add: startswith_def fence_def)
  then have "splitlines t \<noteq> []" by (simp add: splitlines_def splitlines_from_nonempty)
  then show ?thesis
    by (auto simp add: strip_code_fences_def Let_def split: list.splits)
next
  case False
  then show ?thesis by (auto simp add: strip_code_fences_def)
qed

lemma strip_code_fences_plain:
  "\<not> (startswith t fence \<and> endswith t fence) \<Longrightarrow> strip_code_fences t = Inr t"
  by (auto simp add: strip_code_fences_def)

lemma splitlines_from_line:
  "list_all (\<lambda>c. \<not> is_linebreak c) a \<Longrightarrow>
   splitlines_from cur (a @ CHR 0x0A # rest) = (rev cur @ a) # splitlines_from [] rest"
proof (induction a arbitrary: cur)
  case Nil
  show ?case by (cases rest) (simp_all add: is_linebreak_def)
next
  case (Cons x a)
  then have x: "\<not> is_linebreak x" and a: "list_all (\<lambda>c. \<not> is_linebreak c) a" by simp_all
  from x have xcr: "x \<noteq> CHR 0x0D" by (auto simp add: is_linebreak_def)
  obtain d cs where dcs: "a @ CHR 0x0A # rest = d # cs" by (cases "a @ CHR 0x0A # rest") auto
  have "splitlines_from cur ((x # a) @ CHR 0x0A # rest) = splitlines_from (x # cur) (a @ CHR 0x0A # rest)"
    using x xcr by (simp add: dcs)
  also have "\<dots> = (rev (x # cur) @ a) # splitlines_from [] rest"
    by (rule Cons.IH [OF a])
  finally show ?case by simp
qed

lemma splitlines_from_last_line:
  "list_all (\<lambda>c. \<not> is_linebreak c) a \<Longrightarrow> rev cur @ a \<noteq> [] \<Longrightarrow>
   splitlines_from cur a = [rev cur @ a]"
proof (induction a arbitrary: cur)
  case Nil
  then show ?case by simp
next
  case (Cons x a)
  then have x: "\<not> is_linebreak x" and a: "list_all (\<lambda>c. \<not> is_linebreak c) a" by simp_all
  from x have xcr: "x \<noteq> CHR 0x0D" by (auto simp add: is_linebreak_def)
  show ?case
  proof (cases a)
    case Nil
    then show ?thesis using x by simp
  next
    case (Cons d cs)
    have "splitlines_from cur (x # a) = splitlines_from (x # cur) a"
      using x xcr by (simp add: Cons)
    also have "\<dots> = [rev (x # cur) @ a]"
      by (rule Cons.IH [OF a]) simp
    finally show ?thesis by simp
  qed
qed

lemma splitlines_joined:
  "list_all (\<lambda>l. list_all (\<lambda>c. \<not> is_linebreak c) l) ls \<Longrightarrow>
   splitlines_from [] (join [CHR 0x0A] ls @ CHR 0x0A # rest) =
     (if ls = [] then [[]] else ls) @ splitlines_from [] rest"
proof (induction ls)
  case Nil
  show ?case using splitlines_from_line [of "[]" "[]" rest] by simp
next
  case (Cons x ls)
  then have x: "list_all (\<lambda>c. \<not> is_linebreak c) x"
    and r: "list_all (\<lambda>l. list_all (\<lambda>c. \<not> is_linebreak c) l) ls" by simp_all
  show ?case
  proof (cases ls)
    case Nil
    then show ?thesis using splitlines_from_line [OF x, of "[]" rest] by simp
  next
    case (Cons y ys)
    have "splitlines_from [] (join [CHR 0x0A] (x # ls) @ CHR 0x0A # rest) =
        splitlines_from [] (x @ CHR 0x0A # (join [CHR 0x0A] ls @ CHR 0x0A # rest))"
      by (simp add: Cons)
    also have "\<dots> = x # splitlines_from [] (join [CHR 0x0A] ls @ CHR 0x0A # rest)"
      using splitlines_from_line [OF x, of "[]"] by simp
    also have "\<dots> = x # ls @ splitlines_from [] rest"
      using Cons.IH [OF r] by (simp add: Cons)
    finally show ?thesis by simp
  qed
qed

lemma strip_fence: "strip fence = fence"
  by code_simp

lemma splitlines_fence: "splitlines_from [] fence = [fence]"
  by code_simp

lemma fence_no_linebreak: "list_all (\<lambda>c. \<not> is_linebreak c) fence"
  by code_simp

lemma not_space_backtick: "\<not> py_isspace (CHR 0x60)"
  by (simp add: py_isspace_def)

lemma fence_chars: "fence = [CHR 0x60, CHR 0x60, CHR 0x60]"
  by (simp add: fence_def)

lemma strip_keeps_fence: "startswith (strip (fence @ info)) fence"
proof -
  have a: "dropWhile py_isspace (fence @ info) = fence @ info"
    by (simp add: fence_chars not_space_backtick)
  have b: "dropWhile py_isspace (rev fence) = rev fence"
    by (simp add: fence_chars not_space_backtick)
  have "rev (dropWhile py_isspace (rev info @ rev fence)) =
      fence @ rev (dropWhile py_isspace (rev info))"
    by (simp add: dropWhile_append b)
  then show ?thesis
    by (simp add: strip_def a startswith_def)
qed

lemma join_blank: "join sep (if ls = [] then [[]] else ls) = join sep ls"
  by simp

lemma strip_code_fences_block:
  assumes "list_all (\<lambda>c. \<not> is_linebreak c) info"
    and "list_all (\<lambda>l. list_all (\<lambda>c. \<not> is_linebreak c) l) ls"
  shows "strip_code_fences (fence @ info @ [CHR 0x0A] @ join [CHR 0x0A] ls @ [CHR 0x0A] @ fence) =
         Inr (strip (join [CHR 0x0A] ls))"
proof -
  let ?t = "fence @ info @ [CHR 0x0A] @ join [CHR 0x0A] ls @ [CHR 0x0A] @ fence"
  let ?ls = "if ls = [] then [[]] else ls"
  have s: "startswith ?t fence" by (simp add: startswith_def fence_chars)
  have e: "endswith ?t fence" by (simp add: endswith_def fence_chars)
  have l0: "list_all (\<lambda>c. \<not> is_linebreak c) (fence @ info)"
    using assms(1) fence_no_linebreak by simp
  have "splitlines ?t =
      splitlines_from [] ((fence @ info) @ CHR 0x0A # (join [CHR 0x0A] ls @ CHR 0x0A # fence))"
    by (simp add: splitlines_def)
  also have "\<dots> = (fence @ info) # splitlines_from [] (join [CHR 0x0A] ls @ CHR 0x0A # fence)"
    using splitlines_from_line [OF l0, of "[]"] by simp
  also have "\<dots> = (fence @ info) # ?ls @ [fence]"
    by (simp only: splitlines_joined [OF assms(2)] splitlines_fence)
  finally have sp: "splitlines ?t = (fence @ info) # ?ls @ [fence]" .
  have "strip_code_fences ?t = Inr (strip (join [CHR 0x0A] ?ls))"
    unfolding strip_code_fences_def using s e
    by (simp only: sp if_True simp_thms list.case Let_def strip_keeps_fence)
       (simp add: strip_fence)
  then show ?thesis by (simp only: join_blank)
qed

section \<open>The first JSON object of a text\<close>

lemma slice_snoc:
  "i \<le> n \<Longrightarrow> n < length txt \<Longrightarrow> slice txt i (Suc n) = slice txt i n @ [txt ! n]"
  by (simp add: slice_def Suc_diff_le take_Suc_conv_app_nth)

lemma slice_single: "n < length txt \<Longrightarrow> slice txt n (Suc n) = [txt ! n]"
  using slice_snoc [of n n "txt"] by (simp add: slice_def)

lemma extract_loop_groups:
  assumes "txt = pre @ rest"
    and "if depth = 0 then cur = []
         else (\<exists>i. start = Some i \<and> i \<le> length pre \<and> rev cur = slice txt i (length pre))"
  shows "extract_loop loads txt (enumerate (length pre) rest) depth start =
         List.find (\<lambda>g. loads g \<noteq> None) (groups_scan rest depth cur)"
  using assms
proof (induction rest arbitrary: pre depth start cur)
  case Nil
  then show ?case by simp
next
  case (Cons c rest)
  have parts: "txt = (pre @ [c]) @ rest" using Cons.prems(1) by simp
  have len: "length pre < length txt" and nth: "txt ! length pre = c"
    using Cons.prems(1) by simp_all
  note IH = Cons.IH [OF parts]
  show ?case
  proof (cases "c = CHR ''{''")
    case True
    have inv: "if depth + 1 = 0 then c # cur = []
         else (\<exists>i. (if depth = 0 then Some (length pre) else start) = Some i \<and>
                 i \<le> length (pre @ [c]) \<and> rev (c # cur) = slice txt i (length (pre @ [c])))"
    proof (cases "depth = 0")
      case True
      then have "cur = []" using Cons.prems(2) by simp
      then show ?thesis using True slice_single [OF len] nth by simp
    next
      case False
      then obtain i where i: "start = Some i" "i \<le> length pre" "rev cur = slice txt i (length pre)"
        using Cons.prems(2) by auto
      then show ?thesis using False slice_snoc [OF i(2) len] nth by simp
    qed
    from IH [OF inv] True show ?thesis by simp
  next
    case notopen: False
    show ?thesis
    proof (cases "c = CHR ''}''")
      case True
      show ?thesis
      proof (cases "depth = 0")
        case d0: True
        have inv: "if (0::nat) = 0 then ([]::string) = []
           else (\<exists>i. start = Some i \<and> i \<le> length (pre @ [c]) \<and> rev [] = slice txt i (length (pre @ [c])))"
          by simp
        from IH [OF inv] True d0 show ?thesis by simp
      next
        case dpos: False
        then obtain i where i: "start = Some i" "i \<le> length pre" "rev cur = slice txt i (length pre)"
          using Cons.prems(2) by auto
        have cand: "slice txt i (length pre + 1) = rev (c # cur)"
          using slice_snoc [OF i(2) len] nth i(3) by simp
        show ?thesis
        proof (cases "depth = 1")
          case True
          have inv: "if (0::nat) = 0 then ([]::string) = []
             else (\<exists>i. start = Some i \<and> i \<le> length (pre @ [c]) \<and> rev [] = slice txt i (length (pre @ [c])))"
            by simp
          from IH [OF inv] True \<open>c = CHR ''}''\<close> i(1) cand show ?thesis
            by (auto simp add: Let_def split: option.splits)
        next
          case False
          have inv: "if depth - 1 = 0 then c # cur = []
             else (\<exists>i. start = Some i \<and> i \<le> length (pre @ [c]) \<and>
                     rev (c # cur) = slice txt i (length (pre @ [c])))"
            using False dpos i cand by simp
          from IH [OF inv] False dpos \<open>c = CHR ''}''\<close> show ?thesis by simp
        qed
      qed
    next
      case False
      have inv: "if depth = 0 then (if depth = 0 then [] else c # cur) = []
           else (\<exists>i. start = Some i \<and> i \<le> length (pre @ [c]) \<and>
                   rev (if depth = 0 then [] else c # cur) = slice txt i (length (pre @ [c])))"
      proof (cases "depth = 0")
        case True
        then show ?thesis by simp
      next
        case False
        then obtain i where i: "start = Some i" "i \<le> length pre" "rev cur = slice txt i (length pre)"
          using Cons.prems(2) by auto
        then show ?thesis using False slice_snoc [OF i(2) len] nth by simp
      qed
      from IH [OF inv] False notopen show ?thesis by simp
    qed
  qed
qed

lemma extract_first_json_groups:
  "extract_first_json loads txt =
     (case List.find (\<lambda>g. loads g \<noteq> None) (brace_groups txt) of
        Some g \<Rightarrow> Some g
      | None \<Rightarrow> search_braces txt)"
  using extract_loop_groups [of "txt" "[]" "txt" 0 "[]" None loads]
  by (simp add: extract_first_json_def brace_groups_def)

lemma search_braces_Some:
  assumes "search_braces t = Some sp"
  shows "\<exists>pre post. t = pre @ sp @ post \<and> CHR ''{'' \<notin> set pre \<and> CHR ''}'' \<notin> set post \<and>
           hd sp = CHR ''{'' \<and> last sp = CHR ''}''"
proof -
  let ?open = "\<lambda>c. c \<noteq> CHR ''{''" and ?close = "\<lambda>c. c \<noteq> CHR ''}''"
  define frm where "frm = dropWhile ?open t"
  define pre where "pre = takeWhile ?open t"
  define dw where "dw = dropWhile ?close (rev frm)"
  define tw where "tw = takeWhile ?close (rev frm)"
  from assms have sp: "sp = rev dw" and ne: "sp \<noteq> []"
    by (auto simp add: search_braces_def Let_def frm_def dw_def split: if_splits)
  have "rev frm = tw @ dw" by (simp add: tw_def dw_def)
  then have "rev (rev frm) = rev (tw @ dw)" by (rule arg_cong)
  then have from_eq: "frm = sp @ rev tw" by (simp add: sp)
  have t_eq: "t = pre @ sp @ rev tw"
    using from_eq takeWhile_dropWhile_id [of ?open t] by (simp add: pre_def frm_def)
  have p1: "CHR ''{'' \<notin> set pre"
    using set_takeWhileD [of "CHR ''{''" ?open t] by (auto simp add: pre_def)
  have p2: "CHR ''}'' \<notin> set (rev tw)"
    using set_takeWhileD [of "CHR ''}''" ?close "rev frm"] by (auto simp add: tw_def)
  have fne: "dropWhile ?open t \<noteq> []" using from_eq ne by (simp add: frm_def [symmetric])
  have "hd frm = CHR ''{''" using hd_dropWhile [OF fne] by (simp add: frm_def)
  then have h: "hd sp = CHR ''{''" using from_eq ne by simp
  have dne: "dropWhile ?close (rev frm) \<noteq> []" using sp ne by (simp add: dw_def [symmetric])
  have "hd dw = CHR ''}''" using hd_dropWhile [OF dne] by (simp add: dw_def)
  then have l: "last sp = CHR ''}''" using sp ne by (simp add: last_rev)
  from t_eq p1 p2 h l show ?thesis by blast
qed

lemma search_braces_None:
  "search_braces t = None \<longleftrightarrow> \<not> (\<exists>a b c. t = a @ CHR ''{'' # b @ CHR ''}'' # c)"
proof
  assume n: "search_braces t = None"
  show "\<not> (\<exists>a b c. t = a @ CHR ''{'' # b @ CHR ''}'' # c)"
  proof
    assume "\<exists>a b c. t = a @ CHR ''{'' # b @ CHR ''}'' # c"
    then obtain a b c where t: "t = a @ CHR ''{'' # b @ CHR ''}'' # c" by blast
    have "CHR ''}'' \<in> set (dropWhile (\<lambda>c. c \<noteq> CHR ''{'') t)"
      unfolding t by (simp add: dropWhile_append3)
    then have "dropWhile (\<lambda>c. c \<noteq> CHR ''}'') (rev (dropWhile (\<lambda>c. c \<noteq> CHR ''{'') t)) \<noteq> []"
      by auto
    with n show False by (auto simp add: search_braces_def Let_def split: if_splits)
  qed
next
  assume n: "\<not> (\<exists>a b c. t = a @ CHR ''{'' # b @ CHR ''}'' # c)"
  show "search_braces t = None"
  proof (cases "search_braces t")
    case None
    then show ?thesis .
  next
    case (Some sp)
    from search_braces_Some [OF Some] obtain pre post where
      t: "t = pre @ sp @ post" and h: "hd sp = CHR ''{''" and l: "last sp = CHR ''}''"
      by blast
    from Some have ne: "sp \<noteq> []" by (auto simp add: search_braces_def Let_def split: if_splits)
    then obtain x xs where sp: "sp = x # xs" by (cases sp) auto
    with h have x: "x = CHR ''{''" by simp
    have "xs \<noteq> []" using l sp x by auto
    then obtain b where xs: "xs = b @ [CHR ''}'']" using l sp
      by (metis append_butlast_last_id last_ConsR)
    have "t = pre @ CHR ''{'' # b @ CHR ''}'' # post"
      using t sp x xs by simp
    with n show ?thesis by blast
  qed
qed

lemma groups_scan_balanced:
  assumes "if depth = 0 then cur = []
           else cur \<noteq> [] \<and> last cur = CHR ''{'' \<and>
                count_list cur (CHR ''{'') = count_list cur (CHR ''}'') + depth"
  shows "list_all (\<lambda>g. g \<noteq> [] \<and> hd g = CHR ''{'' \<and> last g = CHR ''}'' \<and>
           count_list g (CHR ''{'') = count_list g (CHR ''}'')) (groups_scan rest depth cur)"
  using assms
proof (induction rest arbitrary: depth cur)
  case Nil
  then show ?case by simp
next
  case (Cons c rest)
  show ?case
  proof (cases "c = CHR ''{''")
    case True
    have "if depth + 1 = 0 then c # cur = []
           else c # cur \<noteq> [] \<and> last (c # cur) = CHR ''{'' \<and>
                count_list (c # cur) (CHR ''{'') = count_list (c # cur) (CHR ''}'') + (depth + 1)"
      using Cons.prems True by (cases "depth = 0") auto
    from Cons.IH [OF this] True show ?thesis by simp
  next
    case notopen: False
    show ?thesis
    proof (cases "c = CHR ''}''")
      case True
      have z: "if (0::nat) = 0 then ([]::string) = []
           else [] \<noteq> [] \<and> last [] = CHR ''{'' \<and>
                count_list [] (CHR ''{'') = count_list [] (CHR ''}'') + 0"
        by simp
      show ?thesis
      proof (cases "depth = 0")
        case d0: True
        from Cons.IH [OF z] True d0 show ?thesis by simp
      next
        case dpos: False
        show ?thesis
        proof (cases "depth = 1")
          case True
          have "hd (rev (c # cur)) = CHR ''{'' \<and> last (rev (c # cur)) = CHR ''}'' \<and>
              count_list (rev (c # cur)) (CHR ''{'') = count_list (rev (c # cur)) (CHR ''}'')"
            using Cons.prems True \<open>c = CHR ''}''\<close> by (simp add: hd_rev last_rev hd_append)
          with Cons.IH [OF z] True \<open>c = CHR ''}''\<close> show ?thesis by simp
        next
          case False
          have "if depth - 1 = 0 then c # cur = []
           else c # cur \<noteq> [] \<and> last (c # cur) = CHR ''{'' \<and>
                count_list (c # cur) (CHR ''{'') = count_list (c # cur) (CHR ''}'') + (depth - 1)"
            using Cons.prems False dpos \<open>c = CHR ''}''\<close> by auto
          from Cons.IH [OF this] False dpos \<open>c = CHR ''}''\<close> show ?thesis by simp
        qed
      qed
    next
      case False
      have "if depth = 0 then (if depth = 0 then [] else c # cur) = []
           else (if depth = 0 then [] else c # cur) \<noteq> [] \<and>
                last (if depth = 0 then [] else c # cur) = CHR ''{'' \<and>
                count_list (if depth = 0 then [] else c # cur) (CHR ''{'') =
                count_list (if depth = 0 then [] else c # cur) (CHR ''}'') + depth"
        using Cons.prems False notopen by auto
      from Cons.IH [OF this] False notopen show ?thesis by simp
    qed
  qed
qed

lemma brace_groups_balanced:
  "list_all (\<lambda>g. g \<noteq> [] \<and> hd g = CHR ''{'' \<and> last g = CHR ''}'' \<and>
     count_list g (CHR ''{'') = count_list g (CHR ''}'')) (brace_groups t)"
  unfolding brace_groups_def by (rule groups_scan_balanced) simp

lemma groups_scan_sub:
  assumes "t = pre @ rest"
    and "if depth = 0 then cur = [] else (\<exists>a. pre = a @ rev cur)"
  shows "list_all (\<lambda>g. \<exists>a b. t = a @ g @ b) (groups_scan rest depth cur)"
  using assms
proof (induction rest arbitrary: pre depth cur)
  case Nil
  then show ?case by simp
next
  case (Cons c rest)
  have parts: "t = (pre @ [c]) @ rest" using Cons.prems(1) by simp
  note IH = Cons.IH [OF parts]
  have z: "if (0::nat) = 0 then ([]::string) = [] else (\<exists>a. pre @ [c] = a @ rev [])"
    by simp
  have grow: "if d = 0 then c # cur = [] else (\<exists>a. pre @ [c] = a @ rev (c # cur))"
    if "d \<noteq> 0" for d :: nat
    using Cons.prems(2) that by (cases "depth = 0") auto
  show ?case
  proof (cases "c = CHR ''{''")
    case True
    from IH [OF grow [of "depth + 1"]] True show ?thesis by simp
  next
    case notopen: False
    show ?thesis
    proof (cases "c = CHR ''}''")
      case True
      show ?thesis
      proof (cases "depth = 0")
        case d0: True
        from IH [OF z] True d0 show ?thesis by simp
      next
        case dpos: False
        then obtain a where a: "pre = a @ rev cur" using Cons.prems(2) by auto
        show ?thesis
        proof (cases "depth = 1")
          case True
          have "t = a @ rev (c # cur) @ rest" using Cons.prems(1) a by simp
          then have "\<exists>a b. t = a @ rev (c # cur) @ b" by blast
          with IH [OF z] True \<open>c = CHR ''}''\<close> show ?thesis by simp
        next
          case False
          from IH [OF grow [of "depth - 1"]] False dpos \<open>c = CHR ''}''\<close> show ?thesis by simp
        qed
      qed
    next
      case False
      show ?thesis
      proof (cases "depth = 0")
        case True
        from IH [OF z] True False notopen show ?thesis by simp
      next
        case dpos: False
        from IH [OF grow [of depth]] dpos False notopen show ?thesis by simp
      qed
    qed
  qed
qed

lemma brace_groups_sub: "list_all (\<lambda>g. \<exists>a b. t = a @ g @ b) (brace_groups t)"
  unfolding brace_groups_def by (rule groups_scan_sub [of t "[]"]) simp_all

lemma find_parses:
  "List.find (\<lambda>g. loads g \<noteq> None) gs = Some g \<Longrightarrow> \<exists>v. loads g = Some v"
  by (auto simp add: find_Some_iff)

lemma find_member: "List.find P gs = Some g \<Longrightarrow> g \<in> set gs"
  by (auto simp add: find_Some_iff)

lemma search_braces_nonempty: "search_braces s = Some sp \<Longrightarrow> sp \<noteq> []"
  by (auto simp add: search_braces_def Let_def split: if_splits)

lemma safe_json_cases:
  assumes "strip_code_fences (strip content) = Inr cleaned"
  shows "safe_json loads content =
     (case loads cleaned of
        Some v \<Rightarrow> Inr v
      | None \<Rightarrow>
          (case List.find (\<lambda>g. loads g \<noteq> None) (brace_groups cleaned) of
             Some g \<Rightarrow> (case loads g of Some v \<Rightarrow> Inr v | None \<Rightarrow> Inl JSONDecodeError)
           | None \<Rightarrow>
               (case search_braces cleaned of
                  Some sp \<Rightarrow> (case loads sp of Some v \<Rightarrow> Inr v | None \<Rightarrow> Inl JSONDecodeError)
                | None \<Rightarrow>
                    Inl (RuntimeError ''Model returned invalid JSON and no recoverable payload''))))"
proof (cases "loads cleaned")
  case (Some v)
  then show ?thesis by (simp add: safe_json_def assms)
next
  case None
  show ?thesis
  proof (cases "List.find (\<lambda>g. loads g \<noteq> None) (brace_groups cleaned)")
    case (Some g)
    from find_member [OF Some] brace_groups_balanced [of cleaned] have "g \<noteq> []"
      by (auto simp add: list_all_iff)
    with Some None show ?thesis
      by (simp add: safe_json_def assms extract_first_json_groups)
  next
    case nog: None
    show ?thesis
    proof (cases "search_braces cleaned")
      case None
      with nog \<open>loads cleaned = None\<close> show ?thesis
        by (simp add: safe_json_def assms extract_first_json_groups)
    next
      case (Some sp)
      with nog \<open>loads cleaned = None\<close> search_braces_nonempty [OF Some] show ?thesis
        by (simp add: safe_json_def assms extract_first_json_groups)
    qed
  qed
qed

text \<open>
  C3, as amended. \<open>_safe_json\<close> strips the whitespace around the content and then a code
  fence: a text that does not both start and end with three backticks is left as it is, and
  of a fenced block (an opening fence line, lines of text, a closing fence line) the lines
  between the fences are kept. If the cleaned text parses, its value is returned. Otherwise
  the value of the first top-level brace group that parses is returned, where the groups
  are found from left to right with a depth counter that does not know string literals;
  every group is a non-empty part of the text that starts with an opening brace, ends with
  a closing brace and has as many opening as closing braces. If no group parses, the span
  from the first opening brace to the last closing brace is tried, and its value is returned
  if it parses. In every other case the function raises an error.
\<close>

theorem safe_json_recovery:
  assumes "strip_code_fences (strip content) = Inr cleaned"
  shows
   "(\<exists>c. strip_code_fences s = Inr c) \<and>
    (\<not> (startswith s fence \<and> endswith s fence) \<longrightarrow> strip_code_fences s = Inr s) \<and>
    (list_all (\<lambda>c. \<not> is_linebreak c) info \<and>
     list_all (\<lambda>l. list_all (\<lambda>c. \<not> is_linebreak c) l) ls \<longrightarrow>
       strip_code_fences (fence @ info @ [CHR 0x0A] @ join [CHR 0x0A] ls @ [CHR 0x0A] @ fence) =
         Inr (strip (join [CHR 0x0A] ls))) \<and>
    (\<forall>v. loads cleaned = Some v \<longrightarrow> safe_json loads content = Inr v) \<and>
    (loads cleaned = None \<longrightarrow>
       (\<forall>g. List.find (\<lambda>g. loads g \<noteq> None) (brace_groups cleaned) = Some g \<longrightarrow>
          (\<exists>v. loads g = Some v \<and> safe_json loads content = Inr v)) \<and>
       (List.find (\<lambda>g. loads g \<noteq> None) (brace_groups cleaned) = None \<longrightarrow>
          (\<forall>sp v. search_braces cleaned = Some sp \<and> loads sp = Some v \<longrightarrow>
             safe_json loads content = Inr v) \<and>
          (\<forall>sp. search_braces cleaned = Some sp \<and> loads sp = None \<longrightarrow>
             isl (safe_json loads content)) \<and>
          (search_braces cleaned = None \<longrightarrow> isl (safe_json loads content)))) \<and>
    list_all (\<lambda>g. g \<noteq> [] \<and> hd g = CHR ''{'' \<and> last g = CHR ''}'' \<and>
                count_list g (CHR ''{'') = count_list g (CHR ''}'') \<and>
                (\<exists>a b. cleaned = a @ g @ b)) (brace_groups cleaned) \<and>
    (\<forall>sp. search_braces cleaned = Some sp \<longrightarrow>
       (\<exists>pre post. cleaned = pre @ sp @ post \<and> CHR ''{'' \<notin> set pre \<and> CHR ''}'' \<notin> set post \<and>
          hd sp = CHR ''{'' \<and> last sp = CHR ''}'')) \<and>
    (search_braces cleaned = None \<longleftrightarrow>
       \<not> (\<exists>a b c. cleaned = a @ CHR ''{'' # b @ CHR ''}'' # c))"
proof -
  note sj = safe_json_cases [OF assms, of loads]
  have a: "\<exists>c. strip_code_fences s = Inr c" by (rule strip_code_fences_total)
  have b: "\<not> (startswith s fence \<and> endswith s fence) \<longrightarrow> strip_code_fences s = Inr s"
    using strip_code_fences_plain [of s] by blast
  have c: "list_all (\<lambda>c. \<not> is_linebreak c) info \<and>
     list_all (\<lambda>l. list_all (\<lambda>c. \<not> is_linebreak c) l) ls \<longrightarrow>
       strip_code_fences (fence @ info @ [CHR 0x0A] @ join [CHR 0x0A] ls @ [CHR 0x0A] @ fence) =
         Inr (strip (join [CHR 0x0A] ls))"
    using strip_code_fences_block [of info ls] by blast
  have d: "\<forall>v. loads cleaned = Some v \<longrightarrow> safe_json loads content = Inr v"
    by (simp add: sj)
  have e1: "\<exists>v. loads g = Some v \<and> safe_json loads content = Inr v"
    if "loads cleaned = None" "List.find (\<lambda>g. loads g \<noteq> None) (brace_groups cleaned) = Some g" for g
    using that find_parses [OF that(2)] by (auto simp add: sj)
  have e2: "safe_json loads content = Inr v"
    if "loads cleaned = None" "List.find (\<lambda>g. loads g \<noteq> None) (brace_groups cleaned) = None"
      "search_braces cleaned = Some sp \<and> loads sp = Some v" for sp v
    using that by (simp add: sj)
  have e3: "isl (safe_json loads content)"
    if "loads cleaned = None" "List.find (\<lambda>g. loads g \<noteq> None) (brace_groups cleaned) = None"
      "search_braces cleaned = Some sp \<and> loads sp = None" for sp
    using that by (simp add: sj)
  have e4: "isl (safe_json loads content)"
    if "loads cleaned = None" "List.find (\<lambda>g. loads g \<noteq> None) (brace_groups cleaned) = None"
      "search_braces cleaned = None"
    using that by (simp add: sj)
  have f: "list_all (\<lambda>g. g \<noteq> [] \<and> hd g = CHR ''{'' \<and> last g = CHR ''}'' \<and>
                count_list g (CHR ''{'') = count_list g (CHR ''}'') \<and>
                (\<exists>a b. cleaned = a @ g @ b)) (brace_groups cleaned)"
    using brace_groups_balanced [of cleaned] brace_groups_sub [of cleaned]
    by (simp add: list_all_iff)
  have g: "\<forall>sp. search_braces cleaned = Some sp \<longrightarrow>
       (\<exists>pre post. cleaned = pre @ sp @ post \<and> CHR ''{'' \<notin> set pre \<and> CHR ''}'' \<notin> set post \<and>
          hd sp = CHR ''{'' \<and> last sp = CHR ''}'')"
    using search_braces_Some [of cleaned] by blast
  note h = search_braces_None [of cleaned]
  from a b c d e1 e2 e3 e4 f g h show ?thesis by blast
qed

lemma cleaned_fenced_value: "strip_code_fences (strip fenced_value) = Inr ''{\"value\": 10}''"
  by code_simp

lemma cleaned_noisy_object: "strip_code_fences (strip noisy_object) = Inr noisy_object"
  by code_simp

lemma cleaned_brace_in_string: "strip_code_fences (strip brace_in_string) = Inr brace_in_string"
  by code_simp

lemma cleaned_trailing_comma: "strip_code_fences (strip trailing_comma) = Inr trailing_comma"
  by code_simp

lemma cleaned_no_json: "strip_code_fences (strip ''no json here'') = Inr ''no json here''"
  by code_simp

theorem safe_json_recovery_witness:
  "safe_json decode_json fenced_value = Inr (JObject [(''value'', JInt 10)]) \<and>
   strip_code_fences fenced_value = Inr ''{\"value\": 10}'' \<and>
   safe_json decode_json noisy_object = Inr (JObject [(''key'', JInt 1)]) \<and>
   safe_json decode_json brace_in_string = Inr (JObject [(''a'', JString ''}'')]) \<and>
   isl (safe_json decode_json trailing_comma) \<and>
   isl (safe_json decode_json ''no json here'')"
proof -
  have v1: "decode_json ''{\"value\": 10}'' = Some (JObject [(''value'', JInt 10)])"
    by code_simp
  from safe_json_recovery [OF cleaned_fenced_value, of _ _ _ decode_json,
      THEN conjunct2, THEN conjunct2, THEN conjunct2, THEN conjunct1, THEN spec, THEN mp, OF v1]
  have w1: "safe_json decode_json fenced_value = Inr (JObject [(''value'', JInt 10)])" .
  have b1: "list_all (\<lambda>c. \<not> is_linebreak c) [] \<and>
      list_all (\<lambda>l. list_all (\<lambda>c. \<not> is_linebreak c) l) [''{\"value\": 10}'']"
    by code_simp
  have b2: "fence @ [] @ [CHR 0x0A] @ join [CHR 0x0A] [''{\"value\": 10}''] @ [CHR 0x0A] @ fence =
      fenced_value"
    by code_simp
  have b3: "strip (join [CHR 0x0A] [''{\"value\": 10}'']) = ''{\"value\": 10}''"
    by code_simp
  from safe_json_recovery [OF cleaned_fenced_value, of _ "[]" "[''{\"value\": 10}'']" decode_json,
      THEN conjunct2, THEN conjunct2, THEN conjunct1, THEN mp, OF b1]
  have w1': "strip_code_fences fenced_value = Inr ''{\"value\": 10}''"
    unfolding b2 b3 .
  have n2: "decode_json noisy_object = None" by code_simp
  have f2: "List.find (\<lambda>g. decode_json g \<noteq> None) (brace_groups noisy_object) = Some ''{\"key\": 1}''"
    by code_simp
  have v2: "decode_json ''{\"key\": 1}'' = Some (JObject [(''key'', JInt 1)])" by code_simp
  from safe_json_recovery [OF cleaned_noisy_object, of _ _ _ decode_json,
      THEN conjunct2, THEN conjunct2, THEN conjunct2, THEN conjunct2, THEN conjunct1, THEN mp, OF n2,
      THEN conjunct1, THEN spec, THEN mp, OF f2]
  have w2: "safe_json decode_json noisy_object = Inr (JObject [(''key'', JInt 1)])"
    by (simp add: v2)
  have n3: "decode_json brace_in_string = None" by code_simp
  have f3: "List.find (\<lambda>g. decode_json g \<noteq> None) (brace_groups brace_in_string) = None"
    by code_simp
  have s3: "search_braces brace_in_string = Some ''{\"a\":\"}\"}'' \<and>
      decode_json ''{\"a\":\"}\"}'' = Some (JObject [(''a'', JString ''}'')])"
    by code_simp
  from safe_json_recovery [OF cleaned_brace_in_string, of _ _ _ decode_json,
      THEN conjunct2, THEN conjunct2, THEN conjunct2, THEN conjunct2, THEN conjunct1, THEN mp, OF n3,
      THEN conjunct2, THEN mp, OF f3, THEN conjunct1, THEN spec, THEN spec, THEN mp, OF s3]
  have w3: "safe_json decode_json brace_in_string = Inr (JObject [(''a'', JString ''}'')])" .
  have n4: "decode_json trailing_comma = None" by code_simp
  have f4: "List.find (\<lambda>g. decode_json g \<noteq> None) (brace_groups trailing_comma) = None"
    by code_simp
  have s4: "search_braces trailing_comma = Some trailing_comma \<and> decode_json trailing_comma = None"
    by code_simp
  from safe_json_recovery [OF cleaned_trailing_comma, of _ _ _ decode_json,
      THEN conjunct2, THEN conjunct2, THEN conjunct2, THEN conjunct2, THEN conjunct1, THEN mp, OF n4,
      THEN conjunct2, THEN mp, OF f4, THEN conjunct2, THEN conjunct1, THEN spec, THEN mp, OF s4]
  have w4: "isl (safe_json decode_json trailing_comma)" .
  have n5: "decode_json ''no json here'' = None" by code_simp
  have f5: "List.find (\<lambda>g. decode_json g \<noteq> None) (brace_groups ''no json here'') = None"
    by code_simp
  have s5: "search_braces ''no json here'' = None" by code_simp
  from safe_json_recovery [OF cleaned_no_json, of _ _ _ decode_json,
      THEN conjunct2, THEN conjunct2, THEN conjunct2, THEN conjunct2, THEN conjunct1, THEN mp, OF n5,
      THEN conjunct2, THEN mp, OF f5, THEN conjunct2, THEN conjunct2, THEN mp, OF s5]
  have w5: "isl (safe_json decode_json ''no json here'')" .
  from w1 w1' w2 w3 w4 w5 show ?thesis by blast
qed

text \<open>
  C3 as it was stated fails: in the text below an opening brace is never closed, so the
  depth never returns to 0 and the object that follows it, a balanced part of the text that
  parses, is not found; the span from the first to the last brace does not parse, and
  \<open>_safe_json\<close> raises.
\<close>

theorem safe_json_unclosed_brace_counterexample:
  "safe_json decode_json unclosed_before_object = Inl JSONDecodeError \<and>
   unclosed_before_object = ''Use { for objects: '' @ ''{\"a\": 1}'' \<and>
   decode_json ''{\"a\": 1}'' = Some (JObject [(''a'', JInt 1)])"
  by code_simp

section \<open>Retries of a request\<close>

text \<open>
  C4. A response whose only brace span does not parse (here an object with a trailing
  comma) makes \<open>_safe_json\<close> raise \<open>JSONDecodeError\<close> from its second
  \<open>json.loads\<close>, which \<open>_request_with_constraints\<close> does not catch: the error leaves
  after one request, with no backoff and no retry. A response without any brace raises
  \<open>RuntimeError\<close> in \<open>_safe_json\<close> and is retried: three requests, delays of 1.5 and
  3 seconds, then the final \<open>RuntimeError\<close>.
\<close>

theorem malformed_object_not_retried:
  "request_with_constraints decode_json validate (\<lambda>n. ApiContent trailing_comma) no_client_effects =
     (Inl JSONDecodeError, \<lparr> calls = 1, sleeps = [] \<rparr>) \<and>
   request_with_constraints decode_json validate (\<lambda>n. ApiContent ''no json here'') no_client_effects =
     (Inl (RuntimeError
        ''Model response failed validation: Model returned invalid JSON and no recoverable payload''),
      \<lparr> calls = 3, sleeps = [3 / 2, 3] \<rparr>)"
  by code_simp

lemma complete_content:
  "complete (\<lambda>n. ApiContent c) eff = (Inr (strip c), eff \<lparr> calls := calls eff + 1 \<rparr>)"
  by (simp add: complete_def)

lemma complete_raises:
  "complete (\<lambda>n. ApiRaises x) eff =
     (Inl (RuntimeError (''GPT request failed: '' @ x)),
      eff \<lparr> calls := calls eff + 3, sleeps := sleeps eff @ [1, 2] \<rparr>)"
  by (simp add: complete_def)

lemma attempt_once_content:
  "attempt_once loads validate (\<lambda>n. ApiContent c) eff =
     (fst (attempt_once loads validate (\<lambda>n. ApiContent c) eff0), eff \<lparr> calls := calls eff + 1 \<rparr>)"
  by (simp add: attempt_once_def complete_content split: sum.splits)

lemma attempt_once_raises:
  "attempt_once loads validate (\<lambda>n. ApiRaises x) eff =
     (Inl (RuntimeError (''GPT request failed: '' @ x)),
      eff \<lparr> calls := calls eff + 3, sleeps := sleeps eff @ [1, 2] \<rparr>)"
  by (simp add: attempt_once_def complete_raises)

text \<open>
  The retry loop when the endpoint answers every request in the same way. With a content
  that passes all checks the first attempt returns it. With a content whose checks raise
  \<open>RuntimeError\<close> or \<open>ValidationError\<close> there are three attempts of one request
  each, delays of 1.5 and 3 seconds between them, and a final \<open>RuntimeError\<close>; any
  other exception leaves after the first attempt. When every request raises, each of the
  three attempts makes three requests with delays of 1 and 2 seconds between them.
\<close>

theorem request_retries:
  "(\<forall>res eff1. attempt_once loads validate (\<lambda>n. ApiContent c) eff = (res, eff1) \<longrightarrow>
      eff1 = eff \<lparr> calls := calls eff + 1 \<rparr> \<and>
      request_with_constraints loads validate (\<lambda>n. ApiContent c) eff =
        (case res of
           Inr schema \<Rightarrow> (Inr schema, eff1)
         | Inl e \<Rightarrow>
             if caught e
             then (Inl (RuntimeError (''Model response failed validation: '' @ exc_text e)),
                   eff \<lparr> calls := calls eff + 3, sleeps := sleeps eff @ [3 / 2, 3] \<rparr>)
             else (Inl e, eff1))) \<and>
   request_with_constraints loads validate (\<lambda>n. ApiRaises x) eff =
     (Inl (RuntimeError (''Model response failed validation: GPT request failed: '' @ x)),
      eff \<lparr> calls := calls eff + 9, sleeps := sleeps eff @ [1, 2, 3 / 2, 1, 2, 3, 1, 2] \<rparr>)"
proof -
  have a: "eff1 = eff \<lparr> calls := calls eff + 1 \<rparr> \<and>
      request_with_constraints loads validate (\<lambda>n. ApiContent c) eff =
        (case res of
           Inr schema \<Rightarrow> (Inr schema, eff1)
         | Inl e \<Rightarrow>
             if caught e
             then (Inl (RuntimeError (''Model response failed validation: '' @ exc_text e)),
                   eff \<lparr> calls := calls eff + 3, sleeps := sleeps eff @ [3 / 2, 3] \<rparr>)
             else (Inl e, eff1))"
    if h: "attempt_once loads validate (\<lambda>n. ApiContent c) eff = (res, eff1)" for res eff1
  proof -
    from h attempt_once_content [of loads validate c eff eff]
    have r: "res = fst (attempt_once loads validate (\<lambda>n. ApiContent c) eff)"
      and e1: "eff1 = eff \<lparr> calls := calls eff + 1 \<rparr>" by simp_all
    have step: "attempt_once loads validate (\<lambda>n. ApiContent c) e = (res, e \<lparr> calls := calls e + 1 \<rparr>)"
      for e using attempt_once_content [of loads validate c e eff] r by simp
    show ?thesis
    proof (cases res)
      case (Inr schema)
      then show ?thesis using e1 step [of eff]
        by (simp add: request_with_constraints_def)
    next
      case (Inl e)
      show ?thesis
      proof (cases "caught e")
        case True
        then show ?thesis using Inl e1
          by (simp add: request_with_constraints_def step)
      next
        case False
        then show ?thesis using Inl e1
          by (simp add: request_with_constraints_def step)
      qed
    qed
  qed
  have b: "request_with_constraints loads validate (\<lambda>n. ApiRaises x) eff =
     (Inl (RuntimeError (''Model response failed validation: GPT request failed: '' @ x)),
      eff \<lparr> calls := calls eff + 9, sleeps := sleeps eff @ [1, 2, 3 / 2, 1, 2, 3, 1, 2] \<rparr>)"
    by (simp add: request_with_constraints_def attempt_once_raises)
  from a b show ?thesis by blast
qed

theorem request_retries_witness:
  "attempt_once decode_json (\<lambda>j. Inl ''invalid'') (\<lambda>n. ApiContent ''no json here'') no_client_effects =
     (Inl (RuntimeError ''Model returned invalid JSON and no recoverable payload''),
      \<lparr> calls = 1, sleeps = [] \<rparr>) \<and>
   request_with_constraints decode_json (\<lambda>j. Inl ''invalid'') (\<lambda>n. ApiContent ''no json here'')
     no_client_effects =
     (Inl (RuntimeError
        ''Model response failed validation: Model returned invalid JSON and no recoverable payload''),
      \<lparr> calls = 3, sleeps = [3 / 2, 3] \<rparr>)"
proof -
  have h: "attempt_once decode_json (\<lambda>j. Inl ''invalid'') (\<lambda>n. ApiContent ''no json here'')
      no_client_effects =
     (Inl (RuntimeError ''Model returned invalid JSON and no recoverable payload''),
      \<lparr> calls = 1, sleeps = [] \<rparr>)"
    by code_simp
  from request_retries [of decode_json "\<lambda>j. Inl ''invalid''" "''no json here''" no_client_effects,
      THEN conjunct1, THEN spec, THEN spec, THEN mp, OF h]
  have "request_with_constraints decode_json (\<lambda>j. Inl ''invalid'') (\<lambda>n. ApiContent ''no json here'')
     no_client_effects =
     (Inl (RuntimeError
        ''Model response failed validation: Model returned invalid JSON and no recoverable payload''),
      \<lparr> calls = 3, sleeps = [3 / 2, 3] \<rparr>)"
    by (simp add: no_client_effects_def)
  with h show ?thesis by simp
qed

end
